theory Spec2Isabelle
  imports
    Main
    "HOL-Library.Char_ord"
    "HOL-Library.List_Lexorder"
    "HOL-Library.Sublist"
begin

section \<open>The walrus back-port compiler: the rewrite engine of \<^verbatim>\<open>walrus.py\<close>\<close>

text \<open>
  The development embeds the conversion core of \<^verbatim>\<open>src/walrus.py\<close>: the traversal
  \<^verbatim>\<open>Context._process\<close> with its handlers, the assembly \<^verbatim>\<open>Context._concat\<close>, the two
  detectors \<^verbatim>\<open>guess_tabsize\<close> and \<^verbatim>\<open>guess_linesep\<close>, and the entry points
  \<^verbatim>\<open>parse\<close> and \<^verbatim>\<open>convert\<close>.

  Python strings are modelled as \<^typ>\<open>string\<close>, lists of 8-bit characters read as the
  code points 0 to 255. Exceptions are values of the type \<open>error\<close>; a function that can
  raise returns \<open>error + 'a\<close>, with \<open>Inl\<close> for the exception.
\<close>

subsection \<open>Exceptions\<close>

datatype error =
    ConvertError
  | ContextError
  | EnvironError
  | ValueError
  | TypeError
  | KeyError
  | IndexError
  | AttributeError

subsection \<open>The Python built-ins the source relies on\<close>

abbreviation CR :: string where "CR \<equiv> [CHR 0x0D]"
abbreviation LF :: string where "LF \<equiv> [CHR 0x0A]"
abbreviation CRLF :: string where "CRLF \<equiv> [CHR 0x0D, CHR 0x0A]"
abbreviation TAB :: string where "TAB \<equiv> [CHR 0x09]"

text \<open>\<^verbatim>\<open>str(n)\<close> for an integer: its decimal digits, with a minus sign when negative.\<close>

fun str_nat :: "nat \<Rightarrow> string" where
  "str_nat n =
     (if n < 10 then [''0123456789'' ! n]
      else str_nat (n div 10) @ [''0123456789'' ! (n mod 10)])"

declare str_nat.simps [simp del]

definition str_int :: "int \<Rightarrow> string" where
  "str_int i = (if i < 0 then CHR ''-'' # str_nat (nat (- i)) else str_nat (nat i))"

text \<open>
  \<^verbatim>\<open>repr(s)\<close> for a string of code points below 256: single quotes unless the string
  has a single quote and no double quote; the quote character and the backslash are
  escaped, tab, line feed and carriage return are written \<^verbatim>\<open>\t \n \r\<close>, and every
  other non-printable character (below 0x20, 0x7f to 0xa0, 0xad) as \<^verbatim>\<open>\xNN\<close>.
\<close>

definition repr_quote :: "string \<Rightarrow> char" where
  "repr_quote s = (if CHR 0x27 \<in> set s \<and> CHR 0x22 \<notin> set s then CHR 0x22 else CHR 0x27)"

definition hex2 :: "char \<Rightarrow> string" where
  "hex2 c = [''0123456789abcdef'' ! (of_char c div 16), ''0123456789abcdef'' ! (of_char c mod 16)]"

definition repr_char :: "char \<Rightarrow> char \<Rightarrow> string" where
  "repr_char q c =
     (if c = q \<or> c = CHR 0x5C then [CHR 0x5C, c]
      else if c = CHR 0x09 then [CHR 0x5C, CHR ''t'']
      else if c = CHR 0x0A then [CHR 0x5C, CHR ''n'']
      else if c = CHR 0x0D then [CHR 0x5C, CHR ''r'']
      else if (of_char c :: nat) < 32 \<or> (127 \<le> (of_char c :: nat) \<and> (of_char c :: nat) \<le> 160)
              \<or> (of_char c :: nat) = 173
        then [CHR 0x5C, CHR ''x''] @ hex2 c
      else [c])"

definition repr_str :: "string \<Rightarrow> string" where
  "repr_str s = [repr_quote s] @ concat (map (repr_char (repr_quote s)) s) @ [repr_quote s]"

text \<open>The values that the source hands to the \<^verbatim>\<open>%\<close> operator are strings and integers.\<close>

datatype pyval = PyStr string | PyInt int

fun py_str :: "pyval \<Rightarrow> string" where
  "py_str (PyStr s) = s"
| "py_str (PyInt i) = str_int i"

fun py_repr :: "pyval \<Rightarrow> string" where
  "py_repr (PyStr s) = repr_str s"
| "py_repr (PyInt i) = str_int i"

text \<open>
  The \<^verbatim>\<open>%\<close> operator on a format string, for the conversions the source uses:
  \<^verbatim>\<open>%s\<close> and \<^verbatim>\<open>%r\<close>, positional (the right operand is a tuple) or keyed
  \<^verbatim>\<open>%(key)s\<close> (the right operand is a dict), and \<^verbatim>\<open>%%\<close>. Any other conversion
  character is rejected with \<open>ValueError\<close> (flags, widths and the numeric conversions
  do not occur in the templates of the source), a key is read up to the first closing
  parenthesis, and a positional conversion applied to a dict is rejected with
  \<open>TypeError\<close>. The scanner is a state machine over the characters of the template.
\<close>

datatype pyargs = Tuple "pyval list" | Dict "string \<rightharpoonup> pyval"

datatype fmt_mode = Lit | Percent | Key string | Conv pyval

definition emit :: "string \<Rightarrow> error + string \<Rightarrow> error + string" where
  "emit s r = (case r of Inl e \<Rightarrow> Inl e | Inr t \<Rightarrow> Inr (s @ t))"

definition convert_value :: "char \<Rightarrow> pyval \<Rightarrow> error + string" where
  "convert_value c v =
     (if c = CHR ''s'' then Inr (py_str v)
      else if c = CHR ''r'' then Inr (py_repr v)
      else Inl ValueError)"

fun format_go :: "fmt_mode \<Rightarrow> pyargs \<Rightarrow> string \<Rightarrow> error + string" where
  "format_go Lit args [] = (case args of Tuple (v # vs) \<Rightarrow> Inl TypeError | _ \<Rightarrow> Inr [])"
| "format_go Percent args [] = Inl ValueError"
| "format_go (Key k) args [] = Inl ValueError"
| "format_go (Conv v) args [] = Inl ValueError"
| "format_go Lit args (c # cs) =
     (if c = CHR ''%'' then format_go Percent args cs
      else emit [c] (format_go Lit args cs))"
| "format_go Percent args (c # cs) =
     (if c = CHR ''%'' then emit ''%'' (format_go Lit args cs)
      else if c = CHR ''('' then
        (case args of Tuple vs \<Rightarrow> Inl TypeError | Dict d \<Rightarrow> format_go (Key []) args cs)
      else
        (case args of
           Tuple [] \<Rightarrow> Inl TypeError
         | Tuple (v # vs) \<Rightarrow>
             (case convert_value c v of
                Inl e \<Rightarrow> Inl e
              | Inr s \<Rightarrow> emit s (format_go Lit (Tuple vs) cs))
         | Dict d \<Rightarrow> Inl TypeError))"
| "format_go (Key k) args (c # cs) =
     (if c = CHR '')'' then
        (case args of
           Tuple vs \<Rightarrow> Inl TypeError
         | Dict d \<Rightarrow> (case d k of None \<Rightarrow> Inl KeyError | Some v \<Rightarrow> format_go (Conv v) args cs))
      else format_go (Key (k @ [c])) args cs)"
| "format_go (Conv v) args (c # cs) =
     (case convert_value c v of
        Inl e \<Rightarrow> Inl e
      | Inr s \<Rightarrow> emit s (format_go Lit args cs))"

definition pyformat :: "string \<Rightarrow> pyargs \<Rightarrow> error + string" where
  "pyformat template args = format_go Lit args template"

text \<open>\<^verbatim>\<open>sep.join(xs)\<close>.\<close>

fun join :: "string \<Rightarrow> string list \<Rightarrow> string" where
  "join sep [] = []"
| "join sep [x] = x"
| "join sep (x # y # ys) = x @ sep @ join sep (y # ys)"

text \<open>
  \<^verbatim>\<open>s.splitlines(keepends)\<close>: the line boundaries among the code points below 256
  are \<^verbatim>\<open>\n\<close>, \<^verbatim>\<open>\r\<close>, \<^verbatim>\<open>\r\n\<close>, \<^verbatim>\<open>\v\<close>, \<^verbatim>\<open>\f\<close>, \<^verbatim>\<open>\x1c\<close>, \<^verbatim>\<open>\x1d\<close>, \<^verbatim>\<open>\x1e\<close> and
  \<^verbatim>\<open>\x85\<close>. The second argument of \<open>splitlines_from\<close> holds the characters of the
  line being read.
\<close>

definition is_linebreak :: "char \<Rightarrow> bool" where
  "is_linebreak c =
     (c = CHR 0x0A \<or> c = CHR 0x0D \<or> c = CHR 0x0B \<or> c = CHR 0x0C \<or> c = CHR 0x1C
      \<or> c = CHR 0x1D \<or> c = CHR 0x1E \<or> c = CHR 0x85)"

fun splitlines_from :: "bool \<Rightarrow> string \<Rightarrow> string \<Rightarrow> string list" where
  "splitlines_from keepends cur [] = (if cur = [] then [] else [cur])"
| "splitlines_from keepends cur [c] =
     (if is_linebreak c then [cur @ (if keepends then [c] else [])]
      else [cur @ [c]])"
| "splitlines_from keepends cur (c # d # cs) =
     (if c = CHR 0x0D \<and> d = CHR 0x0A then
        (cur @ (if keepends then [c, d] else [])) # splitlines_from keepends [] cs
      else if is_linebreak c then
        (cur @ (if keepends then [c] else [])) # splitlines_from keepends [] (d # cs)
      else splitlines_from keepends (cur @ [c]) (d # cs))"

definition splitlines :: "bool \<Rightarrow> string \<Rightarrow> string list" where
  "splitlines keepends s = splitlines_from keepends [] s"

text \<open>\<^verbatim>\<open>s.endswith(t)\<close>.\<close>

definition endswith :: "string \<Rightarrow> string \<Rightarrow> bool" where
  "endswith s t = (length t \<le> length s \<and> drop (length s - length t) s = t)"

text \<open>
  \<^verbatim>\<open>s.upper()\<close>. The ASCII letters are mapped to upper case. No character outside
  ASCII has one of the letters C, R, L, F in its upper-case form, and the source only
  compares the result with \<^verbatim>\<open>'CR'\<close>, \<^verbatim>\<open>'CRLF'\<close> and \<^verbatim>\<open>'LF'\<close>, so the other characters
  are left as they are.
\<close>

definition upper_char :: "char \<Rightarrow> char" where
  "upper_char c =
     (if (97::nat) \<le> of_char c \<and> of_char c \<le> (122::nat)
      then ''ABCDEFGHIJKLMNOPQRSTUVWXYZ'' ! (of_char c - 97)
      else c)"

definition upper :: "string \<Rightarrow> string" where
  "upper s = map upper_char s"

text \<open>
  \<^verbatim>\<open>s.expandtabs(tabsize)\<close>: a tab becomes the spaces that reach the next multiple of
  \<open>tabsize\<close> (none when \<open>tabsize\<close> is not positive); the column restarts after a line
  feed or a carriage return.
\<close>

fun expandtabs_from :: "int \<Rightarrow> int \<Rightarrow> string \<Rightarrow> string" where
  "expandtabs_from tabsize col [] = []"
| "expandtabs_from tabsize col (c # cs) =
     (if c = CHR 0x09 then
        (if tabsize > 0 then
           replicate (nat (tabsize - col mod tabsize)) CHR '' ''
             @ expandtabs_from tabsize (col + (tabsize - col mod tabsize)) cs
         else expandtabs_from tabsize col cs)
      else if c = CHR 0x0A \<or> c = CHR 0x0D then c # expandtabs_from tabsize 0 cs
      else c # expandtabs_from tabsize (col + 1) cs)"

definition expandtabs :: "string \<Rightarrow> int \<Rightarrow> string" where
  "expandtabs s tabsize = expandtabs_from tabsize 0 s"

text \<open>
  \<^verbatim>\<open>int(s)\<close> in base 10: white space around the number is dropped, one sign is
  allowed, and the digits may be separated by single underscores.
\<close>

definition isspace :: "char \<Rightarrow> bool" where
  "isspace c =
     (c \<in> set [CHR 0x09, CHR 0x0A, CHR 0x0B, CHR 0x0C, CHR 0x0D, CHR 0x1C, CHR 0x1D, CHR 0x1E,
                CHR 0x1F, CHR 0x20, CHR 0x85, CHR 0xA0])"

definition strip :: "string \<Rightarrow> string" where
  "strip s = rev (dropWhile isspace (rev (dropWhile isspace s)))"

definition isdigit :: "char \<Rightarrow> bool" where
  "isdigit c = ((48::nat) \<le> of_char c \<and> of_char c \<le> (57::nat))"

fun parse_digits :: "nat \<Rightarrow> bool \<Rightarrow> string \<Rightarrow> nat option" where
  "parse_digits acc after_digit [] = (if after_digit then Some acc else None)"
| "parse_digits acc after_digit (c # cs) =
     (if isdigit c then parse_digits (acc * 10 + (of_char c - 48)) True cs
      else if c = CHR ''_'' \<and> after_digit then parse_digits acc False cs
      else None)"

definition py_int :: "string \<Rightarrow> error + int" where
  "py_int s =
     (case strip s of
        [] \<Rightarrow> Inl ValueError
      | c # cs \<Rightarrow>
          if c = CHR ''-'' then
            (case parse_digits 0 False cs of None \<Rightarrow> Inl ValueError | Some n \<Rightarrow> Inr (- int n))
          else if c = CHR ''+'' then
            (case parse_digits 0 False cs of None \<Rightarrow> Inl ValueError | Some n \<Rightarrow> Inr (int n))
          else
            (case parse_digits 0 False (c # cs) of None \<Rightarrow> Inl ValueError | Some n \<Rightarrow> Inr (int n)))"

subsection \<open>The syntax tree of the parser\<close>

text \<open>
  A parso tree: the root \<^verbatim>\<open>Module\<close> (a subclass the traversal tests for with
  \<^verbatim>\<open>isinstance\<close>), an interior node with its type tag and its children, or a leaf with
  its type tag, its text \<^verbatim>\<open>value\<close>, the white space and comments before it
  (\<^verbatim>\<open>prefix\<close>) and its column. The parser itself is outside the repository; its trees
  are the input of every function below.
\<close>

datatype node =
    Module "node list"
  | PythonNode string "node list"
  | Leaf string string string int

fun node_type :: "node \<Rightarrow> string" where
  "node_type (Module cs) = ''file_input''"
| "node_type (PythonNode t cs) = t"
| "node_type (Leaf t v p col) = t"

fun has_children :: "node \<Rightarrow> bool" where
  "has_children (Leaf t v p col) = False"
| "has_children n = True"

text \<open>\<^verbatim>\<open>node.get_code()\<close> renders the exact source text of a subtree.\<close>

fun get_code :: "node \<Rightarrow> string" where
  "get_code (Module cs) = concat (map get_code cs)"
| "get_code (PythonNode t cs) = concat (map get_code cs)"
| "get_code (Leaf t v p col) = p @ v"

text \<open>
  \<^verbatim>\<open>node.get_first_leaf()\<close> follows the first children down to a leaf; indexing the
  first child of a node without children raises \<open>IndexError\<close>.
\<close>

fun get_first_leaf :: "node \<Rightarrow> error + node" where
  "get_first_leaf (Leaf t v p col) = Inr (Leaf t v p col)"
| "get_first_leaf (Module []) = Inl IndexError"
| "get_first_leaf (Module (c # cs)) = get_first_leaf c"
| "get_first_leaf (PythonNode t []) = Inl IndexError"
| "get_first_leaf (PythonNode t (c # cs)) = get_first_leaf c"

fun leaf_column :: "node \<Rightarrow> error + int" where
  "leaf_column (Leaf t v p col) = Inr col"
| "leaf_column n = Inl AttributeError"

subsection \<open>The process environment\<close>

text \<open>
  What the core reads from outside: the environment variables (\<^verbatim>\<open>os.getenv\<close>), the
  platform's \<^verbatim>\<open>os.linesep\<close>, and the two module constants computed when the module
  is imported, \<^verbatim>\<open>__walrus_tabsize__\<close> and \<^verbatim>\<open>WALRUS_VERSION[-1]\<close>.
\<close>

record environ =
  getenv :: "string \<rightharpoonup> string"
  os_linesep :: string
  walrus_tabsize_default :: string
  walrus_version_default :: string

definition os_getenv :: "environ \<Rightarrow> string \<Rightarrow> string \<Rightarrow> string" where
  "os_getenv env key dflt = (case getenv env key of None \<Rightarrow> dflt | Some v \<Rightarrow> v)"

subsection \<open>The detectors\<close>

text \<open>
  \<^verbatim>\<open>
    for child in node.children:
        if child.type != 'suite':
            if hasattr(child, 'children'):
                return cls.guess_tabsize(child)
            continue
        return child.children[1].get_first_leaf().column
    return int(os.getenv('WALRUS_TABSIZE', __walrus_tabsize__))
  \<close>
\<close>

fun suite_column :: "node \<Rightarrow> error + int" where
  "suite_column (Leaf t v p col) = Inl AttributeError"
| "suite_column (Module (a # b # cs)) =
     (case get_first_leaf b of Inl e \<Rightarrow> Inl e | Inr l \<Rightarrow> leaf_column l)"
| "suite_column (PythonNode t (a # b # cs)) =
     (case get_first_leaf b of Inl e \<Rightarrow> Inl e | Inr l \<Rightarrow> leaf_column l)"
| "suite_column n = Inl IndexError"

fun guess_tabsize :: "environ \<Rightarrow> node \<Rightarrow> error + int"
  and guess_tabsize_children :: "environ \<Rightarrow> node list \<Rightarrow> error + int" where
  "guess_tabsize env (Leaf t v p col) = Inl AttributeError"
| "guess_tabsize env (Module cs) = guess_tabsize_children env cs"
| "guess_tabsize env (PythonNode t cs) = guess_tabsize_children env cs"
| "guess_tabsize_children env [] =
     py_int (os_getenv env ''WALRUS_TABSIZE'' (walrus_tabsize_default env))"
| "guess_tabsize_children env (child # rest) =
     (if node_type child \<noteq> ''suite'' then
        (if has_children child then guess_tabsize env child
         else guess_tabsize_children env rest)
      else suite_column child)"

text \<open>
  \<^verbatim>\<open>
    root = node.get_root_node()
    code = root.get_code()
    pool = {'\r': 0, '\r\n': 0, '\n': 0}
    for line in code.splitlines(True):
        if line.endswith('\r'):
            pool['\r'] += 1
        elif line.endswith('\r\n'):
            pool['\r\n'] += 1
        else:
            pool['\n'] += 1
    sort = sorted(pool, key=lambda k: pool[k])
    if pool[sort[0]] > pool[sort[1]]:
        return sort[0]
    env = os.getenv('POSEUR_LINESEP', os.linesep)
    env_name = env.upper()
    if env_name == 'CR':
        return '\r'
    if env_name == 'CRLF':
        return '\r\n'
    if env_name == 'LF':
        return '\n'
    if env in ['\r', '\r\n', '\n']:
        return env
    raise EnvironError('invlid line separator %r' % env)
  \<close>
  The tree has no parent links in the model, so the function takes the root of the
  tree that holds the node (the value of \<^verbatim>\<open>node.get_root_node()\<close>). The dict
  \<^verbatim>\<open>pool\<close> is an association list in its insertion order, which is the order
  \<^verbatim>\<open>sorted\<close> reads the keys in; \<^verbatim>\<open>sorted\<close> is stable and ascending, as
  \<^const>\<open>sort_key\<close> is.
\<close>

type_synonym pool = "(string \<times> nat) list"

definition pool_get :: "pool \<Rightarrow> string \<Rightarrow> nat" where
  "pool_get pool k = (case map_of pool k of None \<Rightarrow> 0 | Some n \<Rightarrow> n)"

definition pool_incr :: "pool \<Rightarrow> string \<Rightarrow> pool" where
  "pool_incr pool k = map (\<lambda>(k', n). if k' = k then (k', n + 1) else (k', n)) pool"

definition count_line :: "string \<Rightarrow> pool \<Rightarrow> pool" where
  "count_line line pool =
     (if endswith line CR then pool_incr pool CR
      else if endswith line CRLF then pool_incr pool CRLF
      else pool_incr pool LF)"

definition count_lines :: "string \<Rightarrow> pool" where
  "count_lines code = fold count_line (splitlines True code) [(CR, 0), (CRLF, 0), (LF, 0)]"

definition guess_linesep :: "environ \<Rightarrow> node \<Rightarrow> error + string" where
  "guess_linesep env root =
     (let code = get_code root;
          pool = count_lines code;
          sort = sort_key (pool_get pool) (map fst pool)
      in if pool_get pool (sort ! 0) > pool_get pool (sort ! 1) then Inr (sort ! 0)
         else
           (let env_value = os_getenv env ''POSEUR_LINESEP'' (os_linesep env);
                env_name = upper env_value
            in if env_name = ''CR'' then Inr CR
               else if env_name = ''CRLF'' then Inr CRLF
               else if env_name = ''LF'' then Inr LF
               else if env_value \<in> set [CR, CRLF, LF] then Inr env_value
               else Inl EnvironError))"

subsection \<open>The conversion context\<close>

text \<open>
  The helper template of the source, split into its six lines (the first one empty):
  \<^verbatim>\<open>
    FUNC_TEMPLATE = '''
    def __walrus_wrapper_%(name)s_%(uuid)s():
    %(tabsize)s"""Wrapper function for assignment expression `%(expr)s`."""
    %(tabsize)s%(keyword)s %(name)s
    %(tabsize)s%(name)s = %(expr)s
    %(tabsize)sreturn %(name)s
    '''.splitlines()
  \<close>
\<close>

abbreviation DQ3 :: string where "DQ3 \<equiv> [CHR 0x22, CHR 0x22, CHR 0x22]"

definition FUNC_TEMPLATE :: "string list" where
  "FUNC_TEMPLATE = splitlines False
     (LF @ ''def __walrus_wrapper_%(name)s_%(uuid)s():'' @ LF
         @ ''%(tabsize)s'' @ DQ3 @ ''Wrapper function for assignment expression `%(expr)s`.''
             @ DQ3 @ LF
         @ ''%(tabsize)s%(keyword)s %(name)s'' @ LF
         @ ''%(tabsize)s%(name)s = %(expr)s'' @ LF
         @ ''%(tabsize)sreturn %(name)s'' @ LF)"

text \<open>
  One entry of \<^verbatim>\<open>self._func\<close>, the dict \<^verbatim>\<open>dict(name=name, expr=expr, uuid=nuid)\<close>,
  and the attributes of a \<^verbatim>\<open>Context\<close> (\<^verbatim>\<open>self._column\<close> is \<open>ctx_column\<close>, and so
  on).
\<close>

record wrapper =
  func_name :: string
  func_expr :: string
  func_uuid :: string

record Context =
  ctx_column :: int
  ctx_tabsize :: int
  ctx_linesep :: string
  ctx_indent :: int
  ctx_insert :: bool
  ctx_prefix :: string
  ctx_suffix :: string
  ctx_buffer :: string
  ctx_vars :: "string list"
  ctx_func :: "wrapper list"

text \<open>
  \<^verbatim>\<open>
    if self._insert:
        self._prefix += code
    else:
        self._suffix += code
  \<close>
\<close>

definition append_code :: "string \<Rightarrow> Context \<Rightarrow> Context" where
  "append_code code self =
     (if ctx_insert self then self\<lparr>ctx_prefix := ctx_prefix self @ code\<rparr>
      else self\<lparr>ctx_suffix := ctx_suffix self @ code\<rparr>)"

text \<open>
  The assembly \<^verbatim>\<open>_concat\<close>:
  \<^verbatim>\<open>
    self._buffer += self._prefix
    indent = '\t'.expandtabs(self._column)
    for var in sorted(set(self._vars)):
        self._buffer += '%(indent)s%(name)s = locales().get(%(name)r)%(linesep)s' % dict(
            indent=indent, name=var, linesep=self._linesep,
        )
    keyword = 'nonlocal' if self._column > 0 else 'global'
    for func in sorted(self._func, key=lambda func: func['name']):
        self._buffer += (
            '%s%s' % (self.linesep, indent)
        ).join(FUNC_TEMPLATE) % dict(keyword=keyword, tabsize=self._tabsize, **func) + self._linesep
    self._buffer += self._suffix
  \<close>
  \<open>declaration_line\<close> is the text one round of the first loop appends and
  \<open>wrapper_function\<close> the text one round of the second loop appends. The set of the
  captured names, sorted, is the sorted list of the names without repetitions.
\<close>

definition declaration_line :: "string \<Rightarrow> string \<Rightarrow> string \<Rightarrow> error + string" where
  "declaration_line indent var linesep =
     pyformat ''%(indent)s%(name)s = locales().get(%(name)r)%(linesep)s''
       (Dict [''indent'' \<mapsto> PyStr indent, ''name'' \<mapsto> PyStr var, ''linesep'' \<mapsto> PyStr linesep])"

fun concat_vars :: "string \<Rightarrow> string \<Rightarrow> string list \<Rightarrow> string \<Rightarrow> error + string" where
  "concat_vars indent linesep [] buffer = Inr buffer"
| "concat_vars indent linesep (var # rest) buffer =
     (case declaration_line indent var linesep of
        Inl e \<Rightarrow> Inl e
      | Inr s \<Rightarrow> concat_vars indent linesep rest (buffer @ s))"

definition wrapper_function ::
  "string \<Rightarrow> int \<Rightarrow> string \<Rightarrow> string \<Rightarrow> wrapper \<Rightarrow> error + string" where
  "wrapper_function keyword tabsize linesep indent func =
     (case pyformat ''%s%s'' (Tuple [PyStr linesep, PyStr indent]) of
        Inl e \<Rightarrow> Inl e
      | Inr sep \<Rightarrow>
          (case pyformat (join sep FUNC_TEMPLATE)
                  (Dict [''keyword'' \<mapsto> PyStr keyword, ''tabsize'' \<mapsto> PyInt tabsize,
                         ''name'' \<mapsto> PyStr (func_name func), ''expr'' \<mapsto> PyStr (func_expr func),
                         ''uuid'' \<mapsto> PyStr (func_uuid func)]) of
             Inl e \<Rightarrow> Inl e
           | Inr s \<Rightarrow> Inr (s @ linesep)))"

fun concat_funcs ::
  "string \<Rightarrow> int \<Rightarrow> string \<Rightarrow> string \<Rightarrow> wrapper list \<Rightarrow> string \<Rightarrow> error + string" where
  "concat_funcs keyword tabsize linesep indent [] buffer = Inr buffer"
| "concat_funcs keyword tabsize linesep indent (func # rest) buffer =
     (case wrapper_function keyword tabsize linesep indent func of
        Inl e \<Rightarrow> Inl e
      | Inr s \<Rightarrow> concat_funcs keyword tabsize linesep indent rest (buffer @ s))"

definition concat_ctx :: "Context \<Rightarrow> error + Context" where
  "concat_ctx self =
     (let buffer = ctx_buffer self @ ctx_prefix self;
          indent = expandtabs TAB (ctx_column self)
      in case concat_vars indent (ctx_linesep self) (sort (remdups (ctx_vars self))) buffer of
           Inl e \<Rightarrow> Inl e
         | Inr buffer \<Rightarrow>
             (let keyword = (if ctx_column self > 0 then ''nonlocal'' else ''global'')
              in case concat_funcs keyword (ctx_tabsize self) (ctx_linesep self) indent
                        (sort_key func_name (ctx_func self)) buffer of
                   Inl e \<Rightarrow> Inl e
                 | Inr buffer \<Rightarrow> Inr (self\<lparr>ctx_buffer := buffer @ ctx_suffix self\<rparr>)))"

text \<open>
  The traversal. \<^verbatim>\<open>uuid.uuid4().hex\<close> is modelled by a supply \<open>gen\<close> of identifiers
  and a counter of the identifiers drawn so far, threaded through the traversal next
  to the context; \<open>root\<close> is the root of the tree for \<^const>\<open>guess_linesep\<close>.
  \<^verbatim>\<open>
    def __init__(self, node, column=0, tabsize=None, linesep=None):
        if tabsize is None:
            tabsize = self.guess_tabsize(node)
        if linesep is None:
            linesep = self.guess_linesep(node)
        self._column = column; self._tabsize = tabsize; self._linesep = linesep
        self._indent = self._column; self._insert = True
        self._prefix = ''; self._suffix = ''; self._buffer = ''
        self._vars = list(); self._func = list()
        self._process(node)
        self._concat()

    def _process(self, node):
        if isinstance(node, parso.python.tree.Module):
            self._process_module(node)
            return
        if hasattr(node, 'children'):
            for child in node.children:
                func_name = '_process_%s' % child.type
                func = getattr(self, func_name, self._process)
                func(child)
            return
        code = node.get_code()
        if self._insert: self._prefix += code
        else: self._suffix += code

    def _process_module(self, node):
        """Walk top nodes of the AST module."""

    def _process_namedexpr_test(self, node):
        node_name, _, node_expr = node.children
        name = node_name.value
        nuid = uuid.uuid4().hex
        expr = Context(node_expr, self._indent, self._tabsize, self._linesep).string
        code = '__walrus_wrapper_%s_%s()' % (name, nuid)
        if self._insert: self._prefix += code
        else: self._suffix += code
        self._vars.append(name)
        self._func.append(dict(name=name, expr=expr, uuid=nuid))

    def _process_funcdef(self, node):
        """Process function definition (``funcdef``)."""

    def _process_classdef(self, node):
        """Process class definition (``classdef``)."""
  \<close>
  The handlers \<^verbatim>\<open>_process_module\<close>, \<^verbatim>\<open>_process_funcdef\<close> and
  \<^verbatim>\<open>_process_classdef\<close> have no statement but their docstring: they leave the
  context as it is. \<^verbatim>\<open>getattr\<close> finds a handler for the four type tags
  \<^verbatim>\<open>module\<close>, \<^verbatim>\<open>namedexpr_test\<close>, \<^verbatim>\<open>funcdef\<close> and \<^verbatim>\<open>classdef\<close>, and
  \<^verbatim>\<open>_process\<close> for every other tag. Unpacking \<^verbatim>\<open>node.children\<close> into three
  names raises \<open>ValueError\<close> unless there are three children, and reading
  \<^verbatim>\<open>children\<close> of a leaf or \<^verbatim>\<open>value\<close> of an interior node raises
  \<open>AttributeError\<close>. \<open>process_children\<close> is the loop over \<^verbatim>\<open>node.children\<close>,
  \<open>process_child\<close> the dispatch \<^verbatim>\<open>getattr(self, func_name, self._process)(child)\<close>,
  and \<open>record_namedexpr\<close> the last five statements of \<^verbatim>\<open>_process_namedexpr_test\<close>.
\<close>

definition record_namedexpr :: "string \<Rightarrow> string \<Rightarrow> string \<Rightarrow> Context \<Rightarrow> error + Context" where
  "record_namedexpr name nuid expr self =
     (case pyformat ''__walrus_wrapper_%s_%s()'' (Tuple [PyStr name, PyStr nuid]) of
        Inl e \<Rightarrow> Inl e
      | Inr code \<Rightarrow>
          Inr ((append_code code self)
                 \<lparr>ctx_vars := ctx_vars self @ [name],
                  ctx_func := ctx_func self
                    @ [\<lparr>func_name = name, func_expr = expr, func_uuid = nuid\<rparr>]\<rparr>))"

fun node_value :: "node \<Rightarrow> error + string" where
  "node_value (Leaf t v p col) = Inr v"
| "node_value n = Inl AttributeError"

function (sequential) process ::
    "(nat \<Rightarrow> string) \<Rightarrow> environ \<Rightarrow> node \<Rightarrow> node \<Rightarrow> Context \<Rightarrow> nat \<Rightarrow> error + Context \<times> nat"
  and process_children ::
    "(nat \<Rightarrow> string) \<Rightarrow> environ \<Rightarrow> node \<Rightarrow> node list \<Rightarrow> Context \<Rightarrow> nat \<Rightarrow> error + Context \<times> nat"
  and process_child ::
    "(nat \<Rightarrow> string) \<Rightarrow> environ \<Rightarrow> node \<Rightarrow> node \<Rightarrow> Context \<Rightarrow> nat \<Rightarrow> error + Context \<times> nat"
  and process_namedexpr_test ::
    "(nat \<Rightarrow> string) \<Rightarrow> environ \<Rightarrow> node \<Rightarrow> node \<Rightarrow> Context \<Rightarrow> nat \<Rightarrow> error + Context \<times> nat"
  and Context_init ::
    "(nat \<Rightarrow> string) \<Rightarrow> environ \<Rightarrow> node \<Rightarrow> node \<Rightarrow> int \<Rightarrow> int option \<Rightarrow> string option \<Rightarrow> nat
       \<Rightarrow> error + Context \<times> nat"
  where
  "process gen env root (Module cs) self n = Inr (self, n)"
| "process gen env root (PythonNode t cs) self n = process_children gen env root cs self n"
| "process gen env root (Leaf t v p col) self n =
     Inr (append_code (get_code (Leaf t v p col)) self, n)"
| "process_children gen env root [] self n = Inr (self, n)"
| "process_children gen env root (child # rest) self n =
     (case process_child gen env root child self n of
        Inl e \<Rightarrow> Inl e
      | Inr (self', n') \<Rightarrow> process_children gen env root rest self' n')"
| "process_child gen env root child self n =
     (if node_type child = ''namedexpr_test'' then process_namedexpr_test gen env root child self n
      else if node_type child = ''funcdef'' \<or> node_type child = ''classdef''
              \<or> node_type child = ''module'' then Inr (self, n)
      else process gen env root child self n)"
| "process_namedexpr_test gen env root (Leaf t v p col) self n = Inl AttributeError"
| "process_namedexpr_test gen env root (PythonNode t [node_name, uu, node_expr]) self n =
     (case node_value node_name of
        Inl e \<Rightarrow> Inl e
      | Inr name \<Rightarrow>
          (let nuid = gen n in
           case Context_init gen env root node_expr (ctx_indent self)
                  (Some (ctx_tabsize self)) (Some (ctx_linesep self)) (n + 1) of
             Inl e \<Rightarrow> Inl e
           | Inr (sub, n') \<Rightarrow>
               (case record_namedexpr name nuid (ctx_buffer sub) self of
                  Inl e \<Rightarrow> Inl e
                | Inr self' \<Rightarrow> Inr (self', n'))))"
| "process_namedexpr_test gen env root (Module [node_name, uu, node_expr]) self n =
     (case node_value node_name of
        Inl e \<Rightarrow> Inl e
      | Inr name \<Rightarrow>
          (let nuid = gen n in
           case Context_init gen env root node_expr (ctx_indent self)
                  (Some (ctx_tabsize self)) (Some (ctx_linesep self)) (n + 1) of
             Inl e \<Rightarrow> Inl e
           | Inr (sub, n') \<Rightarrow>
               (case record_namedexpr name nuid (ctx_buffer sub) self of
                  Inl e \<Rightarrow> Inl e
                | Inr self' \<Rightarrow> Inr (self', n'))))"
| "process_namedexpr_test gen env root other self n = Inl ValueError"
| "Context_init gen env root node column tabsize linesep n =
     (case (case tabsize of None \<Rightarrow> guess_tabsize env node | Some t \<Rightarrow> Inr t) of
        Inl e \<Rightarrow> Inl e
      | Inr tabsize' \<Rightarrow>
          (case (case linesep of None \<Rightarrow> guess_linesep env root | Some l \<Rightarrow> Inr l) of
             Inl e \<Rightarrow> Inl e
           | Inr linesep' \<Rightarrow>
               (case process gen env root node
                       \<lparr>ctx_column = column, ctx_tabsize = tabsize', ctx_linesep = linesep',
                        ctx_indent = column, ctx_insert = True, ctx_prefix = [],
                        ctx_suffix = [], ctx_buffer = [], ctx_vars = [], ctx_func = []\<rparr> n of
                  Inl e \<Rightarrow> Inl e
                | Inr (self, n') \<Rightarrow>
                    (case concat_ctx self of
                       Inl e \<Rightarrow> Inl e
                     | Inr self' \<Rightarrow> Inr (self', n')))))"
  by pat_completeness auto

termination
  apply (relation "measure
    (case_sum
      (case_sum (\<lambda>(gen, env, root, node, self, n). 4 * size node)
                (\<lambda>(gen, env, root, cs, self, n). 4 * size_list size cs))
      (case_sum (\<lambda>(gen, env, root, child, self, n). 4 * size child + 2)
        (case_sum (\<lambda>(gen, env, root, node, self, n). 4 * size node + 1)
                  (\<lambda>(gen, env, root, node, column, tabsize, linesep, n). 4 * size node + 1))))")
  apply simp_all
  done

subsection \<open>The entry points\<close>

text \<open>
  \<^verbatim>\<open>
    def parse(string, source, error_recovery=False):
        try:
            return parso.parse(string, error_recovery=error_recovery,
                               version=os.getenv('WALRUS_VERSION', WALRUS_VERSION[-1]))
        except parso.ParserSyntaxError as error:
            ...
            raise ConvertError(message).with_traceback(error.__traceback__) from None

    def convert(string, source='<unknown>'):
        module = parse(string, source)
        string = Context(module).string
        return string
  \<close>
  The parser \<^verbatim>\<open>parso.parse\<close> is a parameter: a function from the grammar version
  and the text to a tree, or to \<open>None\<close> when it raises \<^verbatim>\<open>ParserSyntaxError\<close>. The
  module is the root of its own tree, and the first identifier is the first of the
  supply. The argument \<^verbatim>\<open>source\<close> only labels the message of the error and is left
  out.
\<close>

definition parse :: "(string \<Rightarrow> string \<Rightarrow> node option) \<Rightarrow> environ \<Rightarrow> string \<Rightarrow> error + node" where
  "parse parso_parse env string =
     (case parso_parse (os_getenv env ''WALRUS_VERSION'' (walrus_version_default env)) string of
        None \<Rightarrow> Inl ConvertError
      | Some module \<Rightarrow> Inr module)"

definition convert ::
  "(string \<Rightarrow> string \<Rightarrow> node option) \<Rightarrow> (nat \<Rightarrow> string) \<Rightarrow> environ \<Rightarrow> string \<Rightarrow> error + string" where
  "convert parso_parse gen env string =
     (case parse parso_parse env string of
        Inl e \<Rightarrow> Inl e
      | Inr module \<Rightarrow>
          (case Context_init gen env module module 0 None None 0 of
             Inl e \<Rightarrow> Inl e
           | Inr (self, n) \<Rightarrow> Inr (ctx_buffer self)))"

subsection \<open>Concrete inputs\<close>

text \<open>
  A POSIX process in which none of the variables the core reads is set, and an
  identifier supply whose values are pairwise different.
\<close>

definition env_posix :: environ where
  "env_posix = \<lparr>getenv = Map.empty, os_linesep = LF, walrus_tabsize_default = ''4'',
                 walrus_version_default = ''3.8''\<rparr>"

definition example_uuid :: "nat \<Rightarrow> string" where
  "example_uuid n = replicate (Suc n) CHR ''a''"

text \<open>
  The trees the parser builds for the source texts \<^verbatim>\<open>x = 1\n\<close>, \<^verbatim>\<open>(x := f())\n\<close> and
  \<^verbatim>\<open>a\r\nb\r\n\<close> and for the empty text, whose module holds the end marker alone.
\<close>

definition module_assign :: node where
  "module_assign =
     Module
       [PythonNode ''simple_stmt''
          [PythonNode ''expr_stmt''
             [Leaf ''name'' ''x'' [] 0, Leaf ''operator'' ''='' '' '' 2,
              Leaf ''number'' ''1'' '' '' 4],
           Leaf ''newline'' LF [] 5],
        Leaf ''endmarker'' [] [] 0]"

definition namedexpr_x_f :: node where
  "namedexpr_x_f =
     PythonNode ''namedexpr_test''
       [Leaf ''name'' ''x'' [] 1, Leaf ''operator'' '':='' '' '' 3,
        PythonNode ''atom_expr''
          [Leaf ''name'' ''f'' '' '' 6,
           PythonNode ''trailer''
             [Leaf ''operator'' ''('' [] 7, Leaf ''operator'' '')'' [] 8]]]"

definition module_walrus :: node where
  "module_walrus =
     Module
       [PythonNode ''simple_stmt''
          [PythonNode ''atom''
             [Leaf ''operator'' ''('' [] 0, namedexpr_x_f, Leaf ''operator'' '')'' [] 9],
           Leaf ''newline'' LF [] 10],
        Leaf ''endmarker'' [] [] 0]"

definition module_crlf :: node where
  "module_crlf =
     Module
       [PythonNode ''simple_stmt'' [Leaf ''name'' ''a'' [] 0, Leaf ''newline'' CRLF [] 1],
        PythonNode ''simple_stmt'' [Leaf ''name'' ''b'' [] 0, Leaf ''newline'' CRLF [] 1],
        Leaf ''endmarker'' [] [] 0]"

definition module_empty :: node where
  "module_empty = Module [Leaf ''endmarker'' [] [] 0]"

text \<open>
  Four expression subtrees, as the parser builds them inside a module:
  \<^verbatim>\<open>(x := 1)\<close> as the first token of a line indented by eight columns,
  \<^verbatim>\<open>(a := 1) + (a := 2)\<close>, \<^verbatim>\<open>(y := (x := 1) + 1)\<close> and \<^verbatim>\<open>(a := (a := 1))\<close>. The
  white space before a token is the prefix of its leaf.
\<close>

definition atom_x_1 :: node where
  "atom_x_1 =
     PythonNode ''atom''
       [Leaf ''operator'' ''('' ''        '' 8,
        PythonNode ''namedexpr_test''
          [Leaf ''name'' ''x'' [] 9, Leaf ''operator'' '':='' '' '' 11,
           Leaf ''number'' ''1'' '' '' 14],
        Leaf ''operator'' '')'' [] 15]"

definition sum_a_a :: node where
  "sum_a_a =
     PythonNode ''arith_expr''
       [PythonNode ''atom''
          [Leaf ''operator'' ''('' [] 0,
           PythonNode ''namedexpr_test''
             [Leaf ''name'' ''a'' [] 1, Leaf ''operator'' '':='' '' '' 3,
              Leaf ''number'' ''1'' '' '' 6],
           Leaf ''operator'' '')'' [] 7],
        Leaf ''operator'' ''+'' '' '' 9,
        PythonNode ''atom''
          [Leaf ''operator'' ''('' '' '' 11,
           PythonNode ''namedexpr_test''
             [Leaf ''name'' ''a'' [] 12, Leaf ''operator'' '':='' '' '' 14,
              Leaf ''number'' ''2'' '' '' 17],
           Leaf ''operator'' '')'' [] 18]]"

definition atom_y_x :: node where
  "atom_y_x =
     PythonNode ''atom''
       [Leaf ''operator'' ''('' [] 0,
        PythonNode ''namedexpr_test''
          [Leaf ''name'' ''y'' [] 1, Leaf ''operator'' '':='' '' '' 3,
           PythonNode ''arith_expr''
             [PythonNode ''atom''
                [Leaf ''operator'' ''('' '' '' 6,
                 PythonNode ''namedexpr_test''
                   [Leaf ''name'' ''x'' [] 7, Leaf ''operator'' '':='' '' '' 9,
                    Leaf ''number'' ''1'' '' '' 12],
                 Leaf ''operator'' '')'' [] 13],
              Leaf ''operator'' ''+'' '' '' 15,
              Leaf ''number'' ''1'' '' '' 17]],
        Leaf ''operator'' '')'' [] 18]"


definition atom_a_a :: node where
  "atom_a_a =
     PythonNode ''atom''
       [Leaf ''operator'' ''('' [] 0,
        PythonNode ''namedexpr_test''
          [Leaf ''name'' ''a'' [] 1, Leaf ''operator'' '':='' '' '' 3,
           PythonNode ''atom''
             [Leaf ''operator'' ''('' '' '' 6,
              PythonNode ''namedexpr_test''
                [Leaf ''name'' ''a'' [] 7, Leaf ''operator'' '':='' '' '' 9,
                 Leaf ''number'' ''1'' '' '' 12],
              Leaf ''operator'' '')'' [] 13]],
        Leaf ''operator'' '')'' [] 14]"

text \<open>
  Two statements with a body. The function definition
  \<^verbatim>\<open>def f():\n    return (x := 1)\n\<close>, which stands at column 0 and whose body is a
  function scope; and the module \<^verbatim>\<open>if c:\n    (x := 1)\n\<close> with the suite of its
  \<^verbatim>\<open>if\<close> statement, which stands at column 4 and belongs to the module scope.
\<close>

definition def_f :: node where
  "def_f =
     PythonNode ''funcdef''
       [Leaf ''keyword'' ''def'' [] 0, Leaf ''name'' ''f'' '' '' 4,
        PythonNode ''parameters''
          [Leaf ''operator'' ''('' [] 5, Leaf ''operator'' '')'' [] 6],
        Leaf ''operator'' '':'' [] 7,
        PythonNode ''suite''
          [Leaf ''newline'' LF [] 8,
           PythonNode ''simple_stmt''
             [PythonNode ''return_stmt''
                [Leaf ''keyword'' ''return'' ''    '' 4,
                 PythonNode ''atom''
                   [Leaf ''operator'' ''('' '' '' 11,
                    PythonNode ''namedexpr_test''
                      [Leaf ''name'' ''x'' [] 12, Leaf ''operator'' '':='' '' '' 14,
                       Leaf ''number'' ''1'' '' '' 17],
                    Leaf ''operator'' '')'' [] 18]],
              Leaf ''newline'' LF [] 19]]]"

definition suite_if :: node where
  "suite_if =
     PythonNode ''suite''
       [Leaf ''newline'' LF [] 5,
        PythonNode ''simple_stmt''
          [PythonNode ''atom''
             [Leaf ''operator'' ''('' ''    '' 4,
              PythonNode ''namedexpr_test''
                [Leaf ''name'' ''x'' [] 5, Leaf ''operator'' '':='' '' '' 7,
                 Leaf ''number'' ''1'' '' '' 10],
              Leaf ''operator'' '')'' [] 11],
           Leaf ''newline'' LF [] 12]]"

definition module_if :: node where
  "module_if =
     Module
       [PythonNode ''if_stmt''
          [Leaf ''keyword'' ''if'' [] 0, Leaf ''name'' ''c'' '' '' 3,
           Leaf ''operator'' '':'' [] 4, suite_if],
        Leaf ''endmarker'' [] [] 0]"

text \<open>
  The module of the text \<^verbatim>\<open>(a := 1) + (a := 2)\n\<close>, and a parser that knows these five
  texts and rejects every other one.
\<close>

definition module_sum_a_a :: node where
  "module_sum_a_a =
     Module
       [PythonNode ''simple_stmt'' [sum_a_a, Leaf ''newline'' LF [] 19],
        Leaf ''endmarker'' [] [] 0]"


definition parso_table :: "string \<Rightarrow> string \<Rightarrow> node option" where
  "parso_table version text =
     map_of
       [(''x = 1'' @ LF, module_assign),
        (''(x := f())'' @ LF, module_walrus),
        (''a'' @ CRLF @ ''b'' @ CRLF, module_crlf),
        ([], module_empty),
        (''(a := 1) + (a := 2)'' @ LF, module_sum_a_a)] text"

subsection \<open>Texts and invariants that the properties are stated with\<close>

text \<open>
  The text of one declaration line, of one helper definition (with the text
  \<open>body_indent\<close> that stands before each of its body lines), of the call that stands
  for an occurrence.
\<close>

definition declaration_text :: "string \<Rightarrow> string \<Rightarrow> string \<Rightarrow> string" where
  "declaration_text indent var linesep =
     indent @ var @ '' = locales().get('' @ repr_str var @ '')'' @ linesep"

definition wrapper_text :: "string \<Rightarrow> string \<Rightarrow> string \<Rightarrow> string \<Rightarrow> wrapper \<Rightarrow> string" where
  "wrapper_text keyword body_indent linesep indent func =
     linesep @ indent @ ''def __walrus_wrapper_'' @ func_name func @ ''_'' @ func_uuid func
       @ ''():''
     @ linesep @ indent @ body_indent @ DQ3 @ ''Wrapper function for assignment expression `''
       @ func_expr func @ ''`.'' @ DQ3
     @ linesep @ indent @ body_indent @ keyword @ '' '' @ func_name func
     @ linesep @ indent @ body_indent @ func_name func @ '' = '' @ func_expr func
     @ linesep @ indent @ body_indent @ ''return '' @ func_name func
     @ linesep"

definition call_text :: "wrapper \<Rightarrow> string" where
  "call_text func = ''__walrus_wrapper_'' @ func_name func @ ''_'' @ func_uuid func @ ''()''"

text \<open>
  The children that \<^verbatim>\<open>_process\<close> hands to \<^verbatim>\<open>_process_namedexpr_test\<close> while it walks
  a node, in the order of the walk: the children of type \<^verbatim>\<open>namedexpr_test\<close>, found
  below the node without passing a module, a child of type \<^verbatim>\<open>funcdef\<close>,
  \<^verbatim>\<open>classdef\<close> or \<^verbatim>\<open>module\<close> (whose handlers are empty) or another such occurrence
  (whose expression is walked by a \<^verbatim>\<open>Context\<close> of its own). \<open>occurrence_parts\<close> are
  the name and the expression that \<^verbatim>\<open>_process_namedexpr_test\<close> unpacks from the three
  children of its node.
\<close>

fun occurrences :: "node \<Rightarrow> node list"
  and occurrences_children :: "node list \<Rightarrow> node list" where
  "occurrences (Module cs) = []"
| "occurrences (PythonNode t cs) = occurrences_children cs"
| "occurrences (Leaf t v p col) = []"
| "occurrences_children [] = []"
| "occurrences_children (child # rest) =
     (if node_type child = ''namedexpr_test'' then [child]
      else if node_type child = ''funcdef'' \<or> node_type child = ''classdef''
              \<or> node_type child = ''module'' then []
      else occurrences child)
     @ occurrences_children rest"

fun occurrence_parts :: "node \<Rightarrow> (node \<times> node) option" where
  "occurrence_parts (PythonNode t [node_name, uu, node_expr]) = Some (node_name, node_expr)"
| "occurrence_parts (Module [node_name, uu, node_expr]) = Some (node_name, node_expr)"
| "occurrence_parts n = None"

text \<open>
  \<open>recorded_for\<close>: the wrapper \<open>func\<close> is the one that a context with the given
  indentation, tab size and line separator records for the occurrence \<open>occ\<close>. Its
  name is the value of the first child of \<open>occ\<close>, its identifier is a value \<open>gen k\<close> of
  the supply, and its expression is the output of the \<^verbatim>\<open>Context\<close> that is created
  over the third child of \<open>occ\<close> with this indentation as its column, with this tab
  size and with this line separator, at the counter value that follows \<open>k\<close>.
  \<open>records\<close>: the wrappers that \<open>self'\<close> holds in addition to those of \<open>self\<close> are,
  one by one and in this order, the ones recorded for the occurrences \<open>occs\<close>.
\<close>

definition recorded_for ::
  "(nat \<Rightarrow> string) \<Rightarrow> environ \<Rightarrow> node \<Rightarrow> int \<Rightarrow> int \<Rightarrow> string \<Rightarrow> wrapper \<Rightarrow> node \<Rightarrow> bool" where
  "recorded_for gen env root indent tabsize linesep func occ =
     (\<exists>node_name node_expr k sub m.
        occurrence_parts occ = Some (node_name, node_expr)
        \<and> node_value node_name = Inr (func_name func)
        \<and> func_uuid func = gen k
        \<and> Context_init gen env root node_expr indent (Some tabsize) (Some linesep) (Suc k)
            = Inr (sub, m)
        \<and> func_expr func = ctx_buffer sub)"

definition records ::
  "(nat \<Rightarrow> string) \<Rightarrow> environ \<Rightarrow> node \<Rightarrow> Context \<Rightarrow> Context \<Rightarrow> node list \<Rightarrow> bool" where
  "records gen env root self self' occs =
     (\<exists>fs. ctx_func self' = ctx_func self @ fs
        \<and> list_all2 (recorded_for gen env root (ctx_indent self) (ctx_tabsize self)
                       (ctx_linesep self)) fs occs)"

text \<open>
  \<open>extends\<close>: what the traversal does to a context and to the identifier counter. The
  counter does not go down, the scope parameters and the buffer are kept, text is
  appended to the prefix and the suffix, and wrappers are appended, each with its name
  appended to the captured names.
\<close>

definition extends :: "Context \<Rightarrow> nat \<Rightarrow> Context \<Rightarrow> nat \<Rightarrow> bool" where
  "extends self n self' n' =
     (n \<le> n'
      \<and> ctx_column self' = ctx_column self \<and> ctx_tabsize self' = ctx_tabsize self
      \<and> ctx_linesep self' = ctx_linesep self \<and> ctx_indent self' = ctx_indent self
      \<and> ctx_insert self' = ctx_insert self \<and> ctx_buffer self' = ctx_buffer self
      \<and> (\<exists>p s fs.
            ctx_prefix self' = ctx_prefix self @ p
            \<and> ctx_suffix self' = ctx_suffix self @ s
            \<and> ctx_vars self' = ctx_vars self @ map func_name fs
            \<and> ctx_func self' = ctx_func self @ fs))"

section \<open>Properties\<close>

subsection \<open>The concrete trees render their source text\<close>

lemma get_code_module_assign: "get_code module_assign = ''x = 1'' @ LF"
  by (simp add: module_assign_def)

lemma get_code_module_walrus: "get_code module_walrus = ''(x := f())'' @ LF"
  by (simp add: module_walrus_def namedexpr_x_f_def)

lemma get_code_module_crlf: "get_code module_crlf = ''a'' @ CRLF @ ''b'' @ CRLF"
  by (simp add: module_crlf_def)

lemma guess_tabsize_module_assign: "guess_tabsize env_posix module_assign = Inr 4"
  by (simp add: module_assign_def env_posix_def os_getenv_def py_int_def strip_def
      isspace_def isdigit_def)

lemma guess_tabsize_module_walrus: "guess_tabsize env_posix module_walrus = Inr 4"
  by (simp add: module_walrus_def namedexpr_x_f_def env_posix_def os_getenv_def py_int_def
      strip_def isspace_def isdigit_def)

subsection \<open>Line-separator inference\<close>

lemma map_fst_pool_incr: "map fst (pool_incr pool k) = map fst pool"
  by (induction pool) (auto simp: pool_incr_def)

lemma map_fst_count_line: "map fst (count_line line pool) = map fst pool"
  by (simp add: count_line_def map_fst_pool_incr)

lemma map_fst_fold_count_line: "map fst (fold count_line ls pool) = map fst pool"
  by (induction ls arbitrary: pool) (simp_all add: map_fst_count_line)

lemma keys_count_lines: "map fst (count_lines code) = [CR, CRLF, LF]"
  by (simp add: count_lines_def map_fst_fold_count_line)

text \<open>
  \<^verbatim>\<open>sorted\<close> is ascending: the first key of the sorted list never counts more than
  the second.
\<close>

lemma sort_key_first_two:
  assumes "2 \<le> length xs"
  shows "f (sort_key f xs ! 0) \<le> f (sort_key f xs ! 1)"
proof -
  let ?ys = "sort_key f xs"
  have l1: "1 < length ?ys" using assms by simp
  then have l0: "0 < length ?ys" by linarith
  have "sorted (map f ?ys)" by (rule sorted_sort_key)
  then have "map f ?ys ! 0 \<le> map f ?ys ! 1"
    by (rule sorted_nth_mono) (use l1 in simp_all)
  moreover have "map f ?ys ! 0 = f (?ys ! 0)" using l0 by (rule nth_map)
  moreover have "map f ?ys ! 1 = f (?ys ! 1)" using l1 by (rule nth_map)
  ultimately show ?thesis by simp
qed

lemma guess_linesep_fallback:
  "guess_linesep env root =
     (let env_value = os_getenv env ''POSEUR_LINESEP'' (os_linesep env);
          env_name = upper env_value
      in if env_name = ''CR'' then Inr CR
         else if env_name = ''CRLF'' then Inr CRLF
         else if env_name = ''LF'' then Inr LF
         else if env_value \<in> set [CR, CRLF, LF] then Inr env_value
         else Inl EnvironError)"
proof -
  let ?pool = "count_lines (get_code root)"
  have "pool_get ?pool (sort_key (pool_get ?pool) (map fst ?pool) ! 0)
          \<le> pool_get ?pool (sort_key (pool_get ?pool) (map fst ?pool) ! 1)"
    by (rule sort_key_first_two) (simp add: keys_count_lines)
  then show ?thesis
    by (simp add: guess_linesep_def Let_def)
qed

text \<open>
  Claim C3 (line-separator inference returns the separator with the strictly highest
  count, and consults the configuration only on a tie). The source does not do so: on
  the text \<^verbatim>\<open>a\r\nb\r\n\<close>, whose two lines both end in \<^verbatim>\<open>\r\n\<close>, the counts are 0, 2
  and 0, and with \<^verbatim>\<open>POSEUR_LINESEP\<close> unset on a platform whose \<^verbatim>\<open>os.linesep\<close> is
  \<^verbatim>\<open>\n\<close> the inference returns \<^verbatim>\<open>\n\<close>.
\<close>

theorem guess_linesep_ignores_majority:
  "count_lines (get_code module_crlf) = [(CR, 0), (CRLF, 2), (LF, 0)]
   \<and> guess_linesep env_posix module_crlf = Inr LF"
  by (simp add: module_crlf_def guess_linesep_def env_posix_def count_lines_def splitlines_def
      count_line_def endswith_def pool_incr_def pool_get_def is_linebreak_def os_getenv_def
      upper_def upper_char_def)

text \<open>
  Claim C7: with the configured value \<open>v\<close> (\<^verbatim>\<open>POSEUR_LINESEP\<close>, or \<^verbatim>\<open>os.linesep\<close>
  when the variable is unset), line-separator inference returns \<^verbatim>\<open>\r\<close>, \<^verbatim>\<open>\r\n\<close> or
  \<^verbatim>\<open>\n\<close> when \<open>v\<close> is \<^verbatim>\<open>CR\<close>, \<^verbatim>\<open>CRLF\<close> or \<^verbatim>\<open>LF\<close> in any letter case, returns \<open>v\<close>
  when it is one of the three literal separators, and raises \<open>EnvironError\<close> for every
  other value. This holds for every source, so in particular for a source with no
  strict majority among its line endings.
\<close>

theorem guess_linesep_configured:
  "guess_linesep env root =
     (if upper (os_getenv env ''POSEUR_LINESEP'' (os_linesep env)) = ''CR'' then Inr CR
      else if upper (os_getenv env ''POSEUR_LINESEP'' (os_linesep env)) = ''CRLF'' then Inr CRLF
      else if upper (os_getenv env ''POSEUR_LINESEP'' (os_linesep env)) = ''LF'' then Inr LF
      else if os_getenv env ''POSEUR_LINESEP'' (os_linesep env) = CR
              \<or> os_getenv env ''POSEUR_LINESEP'' (os_linesep env) = CRLF
              \<or> os_getenv env ''POSEUR_LINESEP'' (os_linesep env) = LF
        then Inr (os_getenv env ''POSEUR_LINESEP'' (os_linesep env))
      else Inl EnvironError)"
  by (simp add: guess_linesep_fallback Let_def)

theorem guess_linesep_configured_witness:
  "guess_linesep (env_posix\<lparr>getenv := [''POSEUR_LINESEP'' \<mapsto> TAB]\<rparr>) module_assign
     = Inl EnvironError
   \<and> guess_linesep (env_posix\<lparr>getenv := [''POSEUR_LINESEP'' \<mapsto> ''crLf'']\<rparr>) module_assign
     = Inr CRLF
   \<and> guess_linesep (env_posix\<lparr>getenv := [''POSEUR_LINESEP'' \<mapsto> CR]\<rparr>) module_assign
     = Inr CR"
  using guess_linesep_configured [of "env_posix\<lparr>getenv := [''POSEUR_LINESEP'' \<mapsto> TAB]\<rparr>" module_assign]
    guess_linesep_configured [of "env_posix\<lparr>getenv := [''POSEUR_LINESEP'' \<mapsto> ''crLf'']\<rparr>" module_assign]
    guess_linesep_configured [of "env_posix\<lparr>getenv := [''POSEUR_LINESEP'' \<mapsto> CR]\<rparr>" module_assign]
  by (simp add: env_posix_def os_getenv_def upper_def upper_char_def)

subsection \<open>Conversion of a module\<close>

lemma concat_ctx_empty:
  "concat_ctx \<lparr>ctx_column = column, ctx_tabsize = t, ctx_linesep = l,
     ctx_indent = column, ctx_insert = True, ctx_prefix = [],
     ctx_suffix = [], ctx_buffer = [], ctx_vars = [], ctx_func = []\<rparr>
   = Inr \<lparr>ctx_column = column, ctx_tabsize = t, ctx_linesep = l,
     ctx_indent = column, ctx_insert = True, ctx_prefix = [],
     ctx_suffix = [], ctx_buffer = [], ctx_vars = [], ctx_func = []\<rparr>"
  by (simp add: concat_ctx_def)

lemma Context_init_Module:
  "Context_init gen env root (Module cs) column tabsize linesep n =
     (case (case tabsize of None \<Rightarrow> guess_tabsize env (Module cs) | Some t \<Rightarrow> Inr t) of
        Inl e \<Rightarrow> Inl e
      | Inr t \<Rightarrow>
          (case (case linesep of None \<Rightarrow> guess_linesep env root | Some l \<Rightarrow> Inr l) of
             Inl e \<Rightarrow> Inl e
           | Inr l \<Rightarrow>
               Inr (\<lparr>ctx_column = column, ctx_tabsize = t, ctx_linesep = l,
                     ctx_indent = column, ctx_insert = True, ctx_prefix = [],
                     ctx_suffix = [], ctx_buffer = [], ctx_vars = [], ctx_func = []\<rparr>, n)))"
  by (simp add: concat_ctx_empty split: sum.splits option.splits)

lemma convert_Module:
  assumes "parso_parse (os_getenv env ''WALRUS_VERSION'' (walrus_version_default env)) text
             = Some (Module cs)"
  shows "convert parso_parse gen env text =
     (case guess_tabsize env (Module cs) of
        Inl e \<Rightarrow> Inl e
      | Inr t \<Rightarrow> (case guess_linesep env (Module cs) of Inl e \<Rightarrow> Inl e | Inr l \<Rightarrow> Inr []))"
  using assms
  by (simp add: convert_def parse_def Context_init_Module del: Context_init.simps
        split: sum.splits)

lemma parso_table_assign: "parso_table v (''x = 1'' @ LF) = Some module_assign"
  by (simp add: parso_table_def)

lemma parso_table_walrus: "parso_table v (''(x := f())'' @ LF) = Some module_walrus"
  by (simp add: parso_table_def)

lemma guess_linesep_posix: "guess_linesep env_posix root = Inr LF"
  by (simp add: guess_linesep_fallback env_posix_def os_getenv_def upper_def upper_char_def)

text \<open>
  Claim C1 (a text without the construct is returned unchanged). The source does not
  do so: the handler \<^verbatim>\<open>_process_module\<close> has no body, so nothing of the module
  reaches the output. The text \<^verbatim>\<open>x = 1\n\<close> is converted to the empty string.
\<close>

theorem convert_drops_plain_text:
  "convert parso_table example_uuid env_posix (''x = 1'' @ LF) = Inr []"
  using convert_Module [of parso_table env_posix "''x = 1'' @ LF"
      "[PythonNode ''simple_stmt''
          [PythonNode ''expr_stmt''
             [Leaf ''name'' ''x'' [] 0, Leaf ''operator'' ''='' '' '' 2,
              Leaf ''number'' ''1'' '' '' 4],
           Leaf ''newline'' LF [] 5],
        Leaf ''endmarker'' [] [] 0]" example_uuid]
    parso_table_assign guess_tabsize_module_assign guess_linesep_posix [of module_assign]
  by (simp add: module_assign_def)

text \<open>
  Claim C2 (one occurrence \<^verbatim>\<open>x := f()\<close> gives one helper definition, one
  declaration of \<^verbatim>\<open>x\<close> and one call). The source does not do so, for the reason of
  C1: the text \<^verbatim>\<open>(x := f())\n\<close> is converted to the empty string, which holds no
  helper, no declaration and no call.
\<close>

theorem convert_drops_walrus:
  "convert parso_table example_uuid env_posix (''(x := f())'' @ LF) = Inr []"
  using convert_Module [of parso_table env_posix "''(x := f())'' @ LF"
      "[PythonNode ''simple_stmt''
          [PythonNode ''atom''
             [Leaf ''operator'' ''('' [] 0, namedexpr_x_f, Leaf ''operator'' '')'' [] 9],
           Leaf ''newline'' LF [] 10],
        Leaf ''endmarker'' [] [] 0]" example_uuid]
    parso_table_walrus guess_tabsize_module_walrus guess_linesep_posix [of module_walrus]
  by (simp add: module_walrus_def)

text \<open>
  Claim C9, as amended: the traversal of a module leaves the context as it is
  (nothing is appended, no name and no wrapper is recorded), and for a text that
  parses to a module \<^verbatim>\<open>convert\<close> returns the empty string whenever the detection of
  the tab size and of the line separator in \<^verbatim>\<open>Context.__init__\<close> succeed, and raises
  the error of the detector that fails otherwise.
\<close>

theorem convert_module_empty:
  assumes "parso_parse (os_getenv env ''WALRUS_VERSION'' (walrus_version_default env)) text
             = Some (Module cs)"
  shows "process gen env root (Module cs) self n = Inr (self, n)
    \<and> convert parso_parse gen env text =
        (case guess_tabsize env (Module cs) of
           Inl e \<Rightarrow> Inl e
         | Inr t \<Rightarrow>
             (case guess_linesep env (Module cs) of Inl e \<Rightarrow> Inl e | Inr l \<Rightarrow> Inr []))"
  using convert_Module [of parso_parse env "text" cs gen] assms by simp

theorem convert_module_empty_witness:
  "parso_table (os_getenv env_posix ''WALRUS_VERSION'' (walrus_version_default env_posix))
      (''x = 1'' @ LF) = Some module_assign
   \<and> process example_uuid env_posix module_assign module_assign
        \<lparr>ctx_column = 0, ctx_tabsize = 4, ctx_linesep = LF, ctx_indent = 0, ctx_insert = True,
         ctx_prefix = [], ctx_suffix = [], ctx_buffer = [], ctx_vars = [], ctx_func = []\<rparr> 0
      = Inr (\<lparr>ctx_column = 0, ctx_tabsize = 4, ctx_linesep = LF, ctx_indent = 0,
              ctx_insert = True, ctx_prefix = [], ctx_suffix = [], ctx_buffer = [],
              ctx_vars = [], ctx_func = []\<rparr>, 0)
   \<and> convert parso_table example_uuid env_posix (''x = 1'' @ LF) = Inr []"
proof -
  have p: "parso_table (os_getenv env_posix ''WALRUS_VERSION'' (walrus_version_default env_posix))
      (''x = 1'' @ LF)
    = Some (Module
       [PythonNode ''simple_stmt''
          [PythonNode ''expr_stmt''
             [Leaf ''name'' ''x'' [] 0, Leaf ''operator'' ''='' '' '' 2,
              Leaf ''number'' ''1'' '' '' 4],
           Leaf ''newline'' LF [] 5],
        Leaf ''endmarker'' [] [] 0])"
    by (simp add: parso_table_def module_assign_def)
  show ?thesis
    using convert_module_empty [of parso_table env_posix "''x = 1'' @ LF"
        "[PythonNode ''simple_stmt''
            [PythonNode ''expr_stmt''
               [Leaf ''name'' ''x'' [] 0, Leaf ''operator'' ''='' '' '' 2,
                Leaf ''number'' ''1'' '' '' 4],
             Leaf ''newline'' LF [] 5],
          Leaf ''endmarker'' [] [] 0]" example_uuid module_assign
        "\<lparr>ctx_column = 0, ctx_tabsize = 4, ctx_linesep = LF, ctx_indent = 0, ctx_insert = True,
          ctx_prefix = [], ctx_suffix = [], ctx_buffer = [], ctx_vars = [], ctx_func = []\<rparr>" 0]
      p guess_tabsize_module_assign guess_linesep_posix [of module_assign]
    by (simp add: module_assign_def)
qed

text \<open>
  Claim C9 as stated fails where \<^verbatim>\<open>Context.__init__\<close> raises before the traversal
  starts. The empty text parses to a module that holds the end marker alone. It has no
  line, so the three counts are 0, no separator has a majority, and the configured
  value decides: with \<^verbatim>\<open>POSEUR_LINESEP\<close> set to a tab, \<^verbatim>\<open>convert\<close> raises
  \<open>EnvironError\<close>. The text \<^verbatim>\<open>x = 1\n\<close> has no indented suite, so its tab size is read
  from \<^verbatim>\<open>WALRUS_TABSIZE\<close>: with the value \<^verbatim>\<open>abc\<close>, which \<^verbatim>\<open>int\<close> rejects, \<^verbatim>\<open>convert\<close>
  raises \<open>ValueError\<close>.
\<close>

theorem convert_module_raises:
  "parso_table ''3.8'' [] = Some module_empty
   \<and> count_lines (get_code module_empty) = [(CR, 0), (CRLF, 0), (LF, 0)]
   \<and> convert parso_table example_uuid (env_posix\<lparr>getenv := [''POSEUR_LINESEP'' \<mapsto> TAB]\<rparr>) []
       = Inl EnvironError
   \<and> parso_table ''3.8'' (''x = 1'' @ LF) = Some module_assign
   \<and> convert parso_table example_uuid (env_posix\<lparr>getenv := [''WALRUS_TABSIZE'' \<mapsto> ''abc'']\<rparr>)
       (''x = 1'' @ LF) = Inl ValueError"
proof -
  let ?tab = "env_posix\<lparr>getenv := [''POSEUR_LINESEP'' \<mapsto> TAB]\<rparr>"
  let ?abc = "env_posix\<lparr>getenv := [''WALRUS_TABSIZE'' \<mapsto> ''abc'']\<rparr>"
  have t: "guess_tabsize ?tab module_empty = Inr 4"
    by (simp add: module_empty_def env_posix_def os_getenv_def py_int_def strip_def
        isspace_def isdigit_def)
  have l: "guess_linesep ?tab module_empty = Inl EnvironError"
    by (simp add: guess_linesep_fallback env_posix_def os_getenv_def upper_def upper_char_def)
  have p: "parso_table (os_getenv ?tab ''WALRUS_VERSION'' (walrus_version_default ?tab)) []
    = Some (Module [Leaf ''endmarker'' [] [] 0])"
    by (simp add: parso_table_def module_empty_def)
  have e: "convert parso_table example_uuid ?tab [] = Inl EnvironError"
    using convert_Module [of parso_table ?tab "[]" "[Leaf ''endmarker'' [] [] 0]" example_uuid]
      p t l
    by (simp add: module_empty_def)
  have c: "count_lines (get_code module_empty) = [(CR, 0), (CRLF, 0), (LF, 0)]"
    by (simp add: module_empty_def count_lines_def splitlines_def)
  have t': "guess_tabsize ?abc module_assign = Inl ValueError"
    by (simp add: module_assign_def env_posix_def os_getenv_def py_int_def strip_def
        isspace_def isdigit_def)
  have p': "parso_table (os_getenv ?abc ''WALRUS_VERSION'' (walrus_version_default ?abc))
      (''x = 1'' @ LF)
    = Some (Module
       [PythonNode ''simple_stmt''
          [PythonNode ''expr_stmt''
             [Leaf ''name'' ''x'' [] 0, Leaf ''operator'' ''='' '' '' 2,
              Leaf ''number'' ''1'' '' '' 4],
           Leaf ''newline'' LF [] 5],
        Leaf ''endmarker'' [] [] 0])"
    by (simp add: parso_table_def module_assign_def)
  have v: "convert parso_table example_uuid ?abc (''x = 1'' @ LF) = Inl ValueError"
    using convert_Module [of parso_table ?abc "''x = 1'' @ LF"
        "[PythonNode ''simple_stmt''
            [PythonNode ''expr_stmt''
               [Leaf ''name'' ''x'' [] 0, Leaf ''operator'' ''='' '' '' 2,
                Leaf ''number'' ''1'' '' '' 4],
             Leaf ''newline'' LF [] 5],
          Leaf ''endmarker'' [] [] 0]" example_uuid]
      p' t'
    by (simp add: module_assign_def)
  show ?thesis
    using e c v by (simp add: parso_table_def)
qed

subsection \<open>The templates\<close>

lemma emit_simps [simp]: "emit s (Inr t) = Inr (s @ t)" "emit s (Inl e) = Inl e"
  by (simp_all add: emit_def)

lemma emit_emit: "emit xs (emit ys r) = emit (xs @ ys) r"
  by (cases r) simp_all

lemma format_go_literal:
  "CHR ''%'' \<notin> set xs \<Longrightarrow> format_go Lit args (xs @ ys) = emit xs (format_go Lit args ys)"
proof (induction xs)
  case Nil
  show ?case by (cases "format_go Lit args ys") simp_all
next
  case (Cons c xs)
  then show ?case by (auto simp: emit_emit)
qed

lemma declaration_line_text:
  "declaration_line indent var linesep = Inr (declaration_text indent var linesep)"
  by (simp add: declaration_line_def declaration_text_def pyformat_def convert_value_def)

lemma FUNC_TEMPLATE_lines:
  "FUNC_TEMPLATE =
     [[], ''def __walrus_wrapper_%(name)s_%(uuid)s():'',
      ''%(tabsize)s'' @ DQ3 @ ''Wrapper function for assignment expression `%(expr)s`.'' @ DQ3,
      ''%(tabsize)s%(keyword)s %(name)s'',
      ''%(tabsize)s%(name)s = %(expr)s'',
      ''%(tabsize)sreturn %(name)s'']"
  by (simp add: FUNC_TEMPLATE_def splitlines_def is_linebreak_def)

lemma separator_format: "pyformat ''%s%s'' (Tuple [PyStr linesep, PyStr indent]) = Inr (linesep @ indent)"
  by (simp add: pyformat_def convert_value_def)

lemma wrapper_function_text:
  assumes "CHR ''%'' \<notin> set linesep" and "CHR ''%'' \<notin> set indent"
  shows "wrapper_function keyword tabsize linesep indent func
           = Inr (wrapper_text keyword (str_int tabsize) linesep indent func)"
  using assms
  by (simp add: wrapper_function_def separator_format FUNC_TEMPLATE_lines pyformat_def
      format_go_literal convert_value_def wrapper_text_def)

subsection \<open>The traversal extends its context\<close>

lemma extends_refl: "extends self n self n"
  unfolding extends_def
  by (intro conjI exI [of _ "[]"]) simp_all

lemma extends_trans:
  assumes a: "extends self n self1 n1"
    and b: "extends self1 n1 self2 n2"
  shows "extends self n self2 n2"
proof -
  from a obtain p1 s1 fs1 where
    a1: "n \<le> n1" "ctx_column self1 = ctx_column self" "ctx_tabsize self1 = ctx_tabsize self"
      "ctx_linesep self1 = ctx_linesep self" "ctx_indent self1 = ctx_indent self"
      "ctx_insert self1 = ctx_insert self" "ctx_buffer self1 = ctx_buffer self"
    and a2: "ctx_prefix self1 = ctx_prefix self @ p1" "ctx_suffix self1 = ctx_suffix self @ s1"
      "ctx_vars self1 = ctx_vars self @ map func_name fs1" "ctx_func self1 = ctx_func self @ fs1"
    unfolding extends_def by blast
  from b obtain p2 s2 fs2 where
    b1: "n1 \<le> n2" "ctx_column self2 = ctx_column self1" "ctx_tabsize self2 = ctx_tabsize self1"
      "ctx_linesep self2 = ctx_linesep self1" "ctx_indent self2 = ctx_indent self1"
      "ctx_insert self2 = ctx_insert self1" "ctx_buffer self2 = ctx_buffer self1"
    and b2: "ctx_prefix self2 = ctx_prefix self1 @ p2" "ctx_suffix self2 = ctx_suffix self1 @ s2"
      "ctx_vars self2 = ctx_vars self1 @ map func_name fs2" "ctx_func self2 = ctx_func self1 @ fs2"
    unfolding extends_def by blast
  have ex: "\<exists>p s fs.
            ctx_prefix self2 = ctx_prefix self @ p
            \<and> ctx_suffix self2 = ctx_suffix self @ s
            \<and> ctx_vars self2 = ctx_vars self @ map func_name fs
            \<and> ctx_func self2 = ctx_func self @ fs"
    apply (rule exI [of _ "p1 @ p2"], rule exI [of _ "s1 @ s2"], rule exI [of _ "fs1 @ fs2"])
    using a2 b2 by simp
  show ?thesis
    unfolding extends_def using a1 b1 ex by simp
qed

lemma extends_append_code: "extends self n (append_code code self) n"
  unfolding extends_def append_code_def
  by (cases "ctx_insert self")
    (auto intro!: exI [of _ "[]"] exI [of _ code])

lemma record_namedexpr_text:
  "record_namedexpr name nuid expr self =
     Inr ((append_code (call_text \<lparr>func_name = name, func_expr = expr, func_uuid = nuid\<rparr>) self)
            \<lparr>ctx_vars := ctx_vars self @ [name],
             ctx_func := ctx_func self
               @ [\<lparr>func_name = name, func_expr = expr, func_uuid = nuid\<rparr>]\<rparr>)"
  by (simp add: record_namedexpr_def pyformat_def convert_value_def call_text_def)

lemma extends_record:
  assumes "n \<le> n'"
    and "record_namedexpr name nuid expr self = Inr self'"
  shows "extends self n self' n'"
proof -
  let ?f = "\<lparr>func_name = name, func_expr = expr, func_uuid = nuid\<rparr>"
  have s: "self' = (append_code (call_text ?f) self)
            \<lparr>ctx_vars := ctx_vars self @ [name], ctx_func := ctx_func self @ [?f]\<rparr>"
    using assms(2) by (simp add: record_namedexpr_text)
  have ex: "\<exists>p s fs.
            ctx_prefix self' = ctx_prefix self @ p
            \<and> ctx_suffix self' = ctx_suffix self @ s
            \<and> ctx_vars self' = ctx_vars self @ map func_name fs
            \<and> ctx_func self' = ctx_func self @ fs"
  proof (cases "ctx_insert self")
    case True
    show ?thesis
      apply (rule exI [of _ "call_text ?f"], rule exI [of _ "[]"], rule exI [of _ "[?f]"])
      using s True by (simp add: append_code_def)
  next
    case False
    show ?thesis
      apply (rule exI [of _ "[]"], rule exI [of _ "call_text ?f"], rule exI [of _ "[?f]"])
      using s False by (simp add: append_code_def)
  qed
  show ?thesis
    unfolding extends_def using assms(1) s ex by (simp add: append_code_def)
qed

declare Context_init.simps [simp del]

lemma process_extends_all:
  shows "\<forall>self' n'. process gen env root node self n = Inr (self', n')
           \<longrightarrow> extends self n self' n'"
    and "\<forall>self' n'. process_children gen env root cs self n = Inr (self', n')
           \<longrightarrow> extends self n self' n'"
    and "\<forall>self' n'. process_child gen env root child self n = Inr (self', n')
           \<longrightarrow> extends self n self' n'"
    and "\<forall>self' n'. process_namedexpr_test gen env root nnode self n = Inr (self', n')
           \<longrightarrow> extends self n self' n'"
    and "\<forall>ctx n'. Context_init gen env root inode column tabsize linesep n = Inr (ctx, n')
           \<longrightarrow> n \<le> n'"
proof (induction gen env root node self n and gen env root cs self n
    and gen env root child self n and gen env root nnode self n
    and gen env root inode column tabsize linesep n
    rule: process_process_children_process_child_process_namedexpr_test_Context_init.induct)
  case (1 gen env root cs self n)
  show ?case by (simp add: extends_refl)
next
  case (2 gen env root t cs self n)
  then show ?case by simp
next
  case (3 gen env root t v p col self n)
  show ?case by (simp add: extends_append_code)
next
  case (4 gen env root self n)
  show ?case by (simp add: extends_refl)
next
  case (5 gen env root child rest self n)
  show ?case
  proof (intro allI impI)
    fix self' n'
    assume r: "process_children gen env root (child # rest) self n = Inr (self', n')"
    then obtain self1 n1 where
      c: "process_child gen env root child self n = Inr (self1, n1)"
      and k: "process_children gen env root rest self1 n1 = Inr (self', n')"
      by (auto split: sum.splits)
    have e1: "extends self n self1 n1" using 5(1) c by blast
    have e2: "extends self1 n1 self' n'" using 5(2) [OF c refl] k by blast
    show "extends self n self' n'" using e1 e2 by (rule extends_trans)
  qed
next
  case (6 gen env root child self n)
  then show ?case by (auto simp: extends_refl)
next
  case (7 gen env root t v p col self n)
  show ?case by simp
next
  case (8 gen env root t node_name uu node_expr self n)
  show ?case
  proof (intro allI impI)
    fix self' n'
    assume r: "process_namedexpr_test gen env root (PythonNode t [node_name, uu, node_expr]) self n
                 = Inr (self', n')"
    then obtain name sub where
      v: "node_value node_name = Inr name"
      and c: "Context_init gen env root node_expr (ctx_indent self) (Some (ctx_tabsize self))
                (Some (ctx_linesep self)) (n + 1) = Inr (sub, n')"
      and k: "record_namedexpr name (gen n) (ctx_buffer sub) self = Inr self'"
      by (auto simp: Let_def split: sum.splits)
    have "n + 1 \<le> n'" using 8 [OF v refl] c by blast
    then have "n \<le> n'" by simp
    then show "extends self n self' n'"
      using k by (rule extends_record)
  qed
next
  case (9 gen env root node_name uu node_expr self n)
  show ?case
  proof (intro allI impI)
    fix self' n'
    assume r: "process_namedexpr_test gen env root (Module [node_name, uu, node_expr]) self n
                 = Inr (self', n')"
    then obtain name sub where
      v: "node_value node_name = Inr name"
      and c: "Context_init gen env root node_expr (ctx_indent self) (Some (ctx_tabsize self))
                (Some (ctx_linesep self)) (n + 1) = Inr (sub, n')"
      and k: "record_namedexpr name (gen n) (ctx_buffer sub) self = Inr self'"
      by (auto simp: Let_def split: sum.splits)
    have "n + 1 \<le> n'" using 9 [OF v refl] c by blast
    then have "n \<le> n'" by simp
    then show "extends self n self' n'"
      using k by (rule extends_record)
  qed
next
  case (11 gen env root node column tabsize linesep n)
  show ?case
  proof (intro allI impI)
    fix ctx n'
    assume r: "Context_init gen env root node column tabsize linesep n = Inr (ctx, n')"
    then obtain t l self where
      t: "(case tabsize of None \<Rightarrow> guess_tabsize env node | Some x \<Rightarrow> Inr x) = Inr t"
      and l: "(case linesep of None \<Rightarrow> guess_linesep env root | Some x \<Rightarrow> Inr x) = Inr l"
      and p: "process gen env root node
               \<lparr>ctx_column = column, ctx_tabsize = t, ctx_linesep = l,
                ctx_indent = column, ctx_insert = True, ctx_prefix = [],
                ctx_suffix = [], ctx_buffer = [], ctx_vars = [], ctx_func = []\<rparr> n
              = Inr (self, n')"
      by (auto simp: Context_init.simps split: sum.splits)
    show "n \<le> n'" using 11 [OF t l] p by (auto simp: extends_def)
  qed
qed simp_all

subsection \<open>The wrappers a traversal records\<close>

lemma records_Nil: "ctx_func self' = ctx_func self \<Longrightarrow> records gen env root self self' []"
  unfolding records_def by simp

lemma records_trans:
  assumes a: "records gen env root self self1 occs1"
    and e: "extends self n self1 n1"
    and b: "records gen env root self1 self2 occs2"
  shows "records gen env root self self2 (occs1 @ occs2)"
proof -
  from a obtain fs1 where
    a1: "ctx_func self1 = ctx_func self @ fs1"
    and a2: "list_all2 (recorded_for gen env root (ctx_indent self) (ctx_tabsize self)
                         (ctx_linesep self)) fs1 occs1"
    unfolding records_def by blast
  from b obtain fs2 where
    b1: "ctx_func self2 = ctx_func self1 @ fs2"
    and b2: "list_all2 (recorded_for gen env root (ctx_indent self1) (ctx_tabsize self1)
                         (ctx_linesep self1)) fs2 occs2"
    unfolding records_def by blast
  have f: "ctx_indent self1 = ctx_indent self" "ctx_tabsize self1 = ctx_tabsize self"
    "ctx_linesep self1 = ctx_linesep self"
    using e by (simp_all add: extends_def)
  have "list_all2 (recorded_for gen env root (ctx_indent self) (ctx_tabsize self)
                     (ctx_linesep self)) (fs1 @ fs2) (occs1 @ occs2)"
    using a2 b2 f by (simp add: list_all2_appendI)
  moreover have "ctx_func self2 = ctx_func self @ fs1 @ fs2"
    using a1 b1 by simp
  ultimately show ?thesis
    unfolding records_def by blast
qed

lemma records_namedexpr:
  assumes "occurrence_parts occ = Some (node_name, node_expr)"
    and "node_value node_name = Inr name"
    and "Context_init gen env root node_expr (ctx_indent self) (Some (ctx_tabsize self))
           (Some (ctx_linesep self)) (Suc n) = Inr (sub, n')"
    and "record_namedexpr name (gen n) (ctx_buffer sub) self = Inr self'"
  shows "records gen env root self self' [occ]"
proof -
  let ?f = "\<lparr>func_name = name, func_expr = ctx_buffer sub, func_uuid = gen n\<rparr>"
  have s: "ctx_func self' = ctx_func self @ [?f]"
    using assms(4) by (auto simp: record_namedexpr_text append_code_def)
  have "recorded_for gen env root (ctx_indent self) (ctx_tabsize self) (ctx_linesep self) ?f occ"
    unfolding recorded_for_def
    apply (rule exI [of _ node_name], rule exI [of _ node_expr], rule exI [of _ n],
        rule exI [of _ sub], rule exI [of _ n'])
    using assms(1,2,3) by simp
  then show ?thesis
    unfolding records_def using s by simp
qed

lemma process_records_all:
  shows "\<forall>self' n'. process gen env root node self n = Inr (self', n')
           \<longrightarrow> records gen env root self self' (occurrences node)"
    and "\<forall>self' n'. process_children gen env root cs self n = Inr (self', n')
           \<longrightarrow> records gen env root self self' (occurrences_children cs)"
    and "\<forall>self' n'. process_child gen env root child self n = Inr (self', n')
           \<longrightarrow> records gen env root self self' (occurrences_children [child])"
    and "\<forall>self' n'. process_namedexpr_test gen env root nnode self n = Inr (self', n')
           \<longrightarrow> records gen env root self self' [nnode]"
    and "\<forall>ctx n'. Context_init gen env root inode column tabsize linesep n = Inr (ctx, n')
           \<longrightarrow> n \<le> n'"
proof (induction gen env root node self n and gen env root cs self n
    and gen env root child self n and gen env root nnode self n
    and gen env root inode column tabsize linesep n
    rule: process_process_children_process_child_process_namedexpr_test_Context_init.induct)
  case (1 gen env root cs self n)
  show ?case by (simp add: records_Nil)
next
  case (2 gen env root t cs self n)
  then show ?case by simp
next
  case (3 gen env root t v p col self n)
  show ?case by (simp add: records_Nil append_code_def)
next
  case (4 gen env root self n)
  show ?case by (simp add: records_Nil)
next
  case (5 gen env root child rest self n)
  show ?case
  proof (intro allI impI)
    fix self' n'
    assume r: "process_children gen env root (child # rest) self n = Inr (self', n')"
    then obtain self1 n1 where
      c: "process_child gen env root child self n = Inr (self1, n1)"
      and k: "process_children gen env root rest self1 n1 = Inr (self', n')"
      by (auto split: sum.splits)
    have r1: "records gen env root self self1 (occurrences_children [child])"
      using 5(1) c by blast
    have e1: "extends self n self1 n1"
      using process_extends_all(3) c by blast
    have r2: "records gen env root self1 self' (occurrences_children rest)"
      using 5(2) [OF c refl] k by blast
    have "occurrences_children (child # rest)
            = occurrences_children [child] @ occurrences_children rest"
      by simp
    then show "records gen env root self self' (occurrences_children (child # rest))"
      using records_trans [OF r1 e1 r2] by simp
  qed
next
  case (6 gen env root child self n)
  then show ?case by (auto simp: records_Nil)
next
  case (7 gen env root t v p col self n)
  show ?case by simp
next
  case (8 gen env root t node_name uu node_expr self n)
  show ?case
  proof (intro allI impI)
    fix self' n'
    assume r: "process_namedexpr_test gen env root (PythonNode t [node_name, uu, node_expr]) self n
                 = Inr (self', n')"
    then obtain name sub where
      v: "node_value node_name = Inr name"
      and c: "Context_init gen env root node_expr (ctx_indent self) (Some (ctx_tabsize self))
                (Some (ctx_linesep self)) (Suc n) = Inr (sub, n')"
      and k: "record_namedexpr name (gen n) (ctx_buffer sub) self = Inr self'"
      by (auto simp: Let_def split: sum.splits)
    have "occurrence_parts (PythonNode t [node_name, uu, node_expr]) = Some (node_name, node_expr)"
      by simp
    then show "records gen env root self self' [PythonNode t [node_name, uu, node_expr]]"
      using v c k by (rule records_namedexpr)
  qed
next
  case (9 gen env root node_name uu node_expr self n)
  show ?case
  proof (intro allI impI)
    fix self' n'
    assume r: "process_namedexpr_test gen env root (Module [node_name, uu, node_expr]) self n
                 = Inr (self', n')"
    then obtain name sub where
      v: "node_value node_name = Inr name"
      and c: "Context_init gen env root node_expr (ctx_indent self) (Some (ctx_tabsize self))
                (Some (ctx_linesep self)) (Suc n) = Inr (sub, n')"
      and k: "record_namedexpr name (gen n) (ctx_buffer sub) self = Inr self'"
      by (auto simp: Let_def split: sum.splits)
    have "occurrence_parts (Module [node_name, uu, node_expr]) = Some (node_name, node_expr)"
      by simp
    then show "records gen env root self self' [Module [node_name, uu, node_expr]]"
      using v c k by (rule records_namedexpr)
  qed
next
  case (11 gen env root node column tabsize linesep n)
  show ?case using process_extends_all(5) by blast
qed simp_all

text \<open>
  With a supply that never repeats a value, the wrapper recorded for an occurrence
  under a given identifier is determined by the occurrence: its name and its
  expression are those of the occurrence, and no other ones.
\<close>

lemma recorded_for_unique:
  assumes "inj gen"
    and "recorded_for gen env root indent tabsize linesep f occ"
    and "recorded_for gen env root indent tabsize linesep f' occ"
    and "func_uuid f = func_uuid f'"
  shows "f = f'"
proof -
  from assms(2) obtain node_name node_expr k sub m where
    a: "occurrence_parts occ = Some (node_name, node_expr)"
      "node_value node_name = Inr (func_name f)" "func_uuid f = gen k"
      "Context_init gen env root node_expr indent (Some tabsize) (Some linesep) (Suc k)
         = Inr (sub, m)"
      "func_expr f = ctx_buffer sub"
    unfolding recorded_for_def by blast
  from assms(3) obtain node_name' node_expr' k' sub' m' where
    b: "occurrence_parts occ = Some (node_name', node_expr')"
      "node_value node_name' = Inr (func_name f')" "func_uuid f' = gen k'"
      "Context_init gen env root node_expr' indent (Some tabsize) (Some linesep) (Suc k')
         = Inr (sub', m')"
      "func_expr f' = ctx_buffer sub'"
    unfolding recorded_for_def by blast
  have "k = k'" using assms(1,4) a(3) b(3) by (simp add: inj_def)
  then have "func_name f = func_name f'" "func_expr f = func_expr f'"
    using a b by simp_all
  then show ?thesis using assms(4) by simp
qed

subsection \<open>The assembly\<close>

lemma expandtabs_TAB: "expandtabs TAB column = replicate (nat column) CHR '' ''"
  by (simp add: expandtabs_def)

lemma concat_vars_text:
  "concat_vars indent linesep vs buffer
     = Inr (buffer @ concat (map (\<lambda>v. declaration_text indent v linesep) vs))"
  by (induction vs arbitrary: buffer) (simp_all add: declaration_line_text)

lemma concat_funcs_text:
  assumes "CHR ''%'' \<notin> set linesep" and "CHR ''%'' \<notin> set indent"
  shows "concat_funcs keyword tabsize linesep indent fs buffer
     = Inr (buffer @ concat (map (wrapper_text keyword (str_int tabsize) linesep indent) fs))"
  using assms
  by (induction fs arbitrary: buffer) (simp_all add: wrapper_function_text)

lemma concat_funcs_appends:
  "concat_funcs keyword tabsize linesep indent fs buffer = Inr b \<Longrightarrow> \<exists>x. b = buffer @ x"
proof (induction fs arbitrary: buffer)
  case Nil
  then show ?case by simp
next
  case (Cons f fs)
  then obtain s where "concat_funcs keyword tabsize linesep indent fs (buffer @ s) = Inr b"
    by (auto split: sum.splits)
  then obtain x where "b = (buffer @ s) @ x" using Cons.IH by blast
  then show ?case by auto
qed

lemma concat_ctx_text:
  assumes "CHR ''%'' \<notin> set (ctx_linesep self)"
  shows "concat_ctx self =
     Inr (self\<lparr>ctx_buffer :=
            ctx_buffer self @ ctx_prefix self
            @ concat (map (\<lambda>v. declaration_text (replicate (nat (ctx_column self)) CHR '' '') v
                                 (ctx_linesep self))
                        (sort (remdups (ctx_vars self))))
            @ concat (map (wrapper_text (if ctx_column self > 0 then ''nonlocal'' else ''global'')
                             (str_int (ctx_tabsize self)) (ctx_linesep self)
                             (replicate (nat (ctx_column self)) CHR '' ''))
                        (sort_key func_name (ctx_func self)))
            @ ctx_suffix self\<rparr>)"
  using assms
  by (simp add: concat_ctx_def Let_def expandtabs_TAB concat_vars_text concat_funcs_text)

lemma concat_ctx_declarations:
  assumes "concat_ctx self = Inr self'"
  shows "\<exists>rest. self' = self\<lparr>ctx_buffer :=
            ctx_buffer self @ ctx_prefix self
            @ concat (map (\<lambda>v. declaration_text (replicate (nat (ctx_column self)) CHR '' '') v
                                 (ctx_linesep self))
                        (sort (remdups (ctx_vars self))))
            @ rest\<rparr>"
proof -
  let ?ind = "replicate (nat (ctx_column self)) CHR '' ''"
  let ?b = "ctx_buffer self @ ctx_prefix self
            @ concat (map (\<lambda>v. declaration_text ?ind v (ctx_linesep self))
                        (sort (remdups (ctx_vars self))))"
  from assms obtain b where
    f: "concat_funcs (if ctx_column self > 0 then ''nonlocal'' else ''global'')
          (ctx_tabsize self) (ctx_linesep self) ?ind (sort_key func_name (ctx_func self)) ?b = Inr b"
    and s: "self' = self\<lparr>ctx_buffer := b @ ctx_suffix self\<rparr>"
    by (auto simp: concat_ctx_def Let_def expandtabs_TAB concat_vars_text split: sum.splits)
  from concat_funcs_appends [OF f] obtain x where "b = ?b @ x" by blast
  then show ?thesis using s by auto
qed

text \<open>What a successful \<^verbatim>\<open>Context(...)\<close> went through.\<close>

lemma Context_init_Inr:
  assumes "Context_init gen env root node column tabsize linesep n = Inr (ctx, n')"
  shows "\<exists>t l self.
      (case tabsize of None \<Rightarrow> guess_tabsize env node | Some x \<Rightarrow> Inr x) = Inr t
      \<and> (case linesep of None \<Rightarrow> guess_linesep env root | Some x \<Rightarrow> Inr x) = Inr l
      \<and> process gen env root node
           \<lparr>ctx_column = column, ctx_tabsize = t, ctx_linesep = l,
            ctx_indent = column, ctx_insert = True, ctx_prefix = [],
            ctx_suffix = [], ctx_buffer = [], ctx_vars = [], ctx_func = []\<rparr> n
          = Inr (self, n')
      \<and> concat_ctx self = Inr ctx"
  using assms by (auto simp: Context_init.simps split: sum.splits)

subsection \<open>Contexts over expression subtrees\<close>

lemma get_code_atom_x_1: "get_code atom_x_1 = ''        (x := 1)''"
  by (simp add: atom_x_1_def)

lemma get_code_sum_a_a: "get_code sum_a_a = ''(a := 1) + (a := 2)''"
  by (simp add: sum_a_a_def)

lemma get_code_atom_y_x: "get_code atom_y_x = ''(y := (x := 1) + 1)''"
  by (simp add: atom_y_x_def)

lemma get_code_atom_a_a: "get_code atom_a_a = ''(a := (a := 1))''"
  by (simp add: atom_a_a_def)

lemma get_code_module_sum_a_a: "get_code module_sum_a_a = ''(a := 1) + (a := 2)'' @ LF"
  by (simp add: module_sum_a_a_def sum_a_a_def)

lemma get_code_suite_if: "get_code suite_if = LF @ ''    (x := 1)'' @ LF"
  by (simp add: suite_if_def)

lemma get_code_module_empty: "get_code module_empty = []"
  by (simp add: module_empty_def)


lemmas eval_simps = Context_init.simps concat_ctx_text append_code_def record_namedexpr_text
  call_text_def wrapper_text_def declaration_text_def repr_str_def repr_quote_def repr_char_def
  str_int_def str_nat.simps example_uuid_def less_eq_char_def less_char_def Let_def

lemma example_uuid_values: "example_uuid 0 = ''a''" "example_uuid 1 = ''aa''"
  by (simp_all add: example_uuid_def eval_nat_numeral)

text \<open>
  Claim C4 (each body line of a helper is indented by \<open>tab_size\<close> spaces relative to
  the \<^verbatim>\<open>def\<close> line; a construct at column 8 with tab size 4 gives body lines indented
  12 columns). The source does not do so: \<^verbatim>\<open>_concat\<close> hands the integer
  \<^verbatim>\<open>self._tabsize\<close> to the conversion \<^verbatim>\<open>%(tabsize)s\<close>, which writes its decimal digits.
  For \<^verbatim>\<open>Context(node, 8, 4, '\n')\<close> over \<^verbatim>\<open>(x := 1)\<close> every body line is the eight
  columns of the \<^verbatim>\<open>def\<close> line followed by the character \<^verbatim>\<open>4\<close>.
\<close>

theorem body_lines_carry_digits:
  "map_sum id (ctx_buffer \<circ> fst) (Context_init example_uuid env_posix atom_x_1 atom_x_1 8 (Some 4) (Some LF) 0)
     = Inr (''        (__walrus_wrapper_x_a())''
            @ ''        x = locales().get('' @ [CHR 0x27] @ ''x'' @ [CHR 0x27] @ '')'' @ LF
            @ LF
            @ ''        def __walrus_wrapper_x_a():'' @ LF
            @ ''        4'' @ DQ3 @ ''Wrapper function for assignment expression ` 1`.'' @ DQ3 @ LF
            @ ''        4nonlocal x'' @ LF
            @ ''        4x =  1'' @ LF
            @ ''        4return x'' @ LF)"
  by (simp add: atom_x_1_def eval_simps example_uuid_values eval_nat_numeral)

text \<open>
  Claim C6 (for \<^verbatim>\<open>(y := (x := 1) + 1)\<close> the call of the inner helper stands inside
  the recorded expression of the outer occurrence, and the inner helper definition is
  well-formed on its own). The expression recorded for \<^verbatim>\<open>y\<close> is the whole output of
  the nested \<^verbatim>\<open>Context\<close>: it holds the inner call, and behind it the declaration of
  \<^verbatim>\<open>x\<close> and the inner helper, whose body lines start with the digit \<^verbatim>\<open>4\<close> (the
  defect of C4) and so are no statements of a function body.
\<close>

theorem nested_expression_text:
  "map_sum id (map func_expr \<circ> ctx_func \<circ> fst)
       (Context_init example_uuid env_posix atom_y_x atom_y_x 0 (Some 4) (Some LF) 0)
     = Inr [
         '' (__walrus_wrapper_x_aa()) + 1''
         @ ''x = locales().get('' @ [CHR 0x27] @ ''x'' @ [CHR 0x27] @ '')'' @ LF
         @ LF
         @ ''def __walrus_wrapper_x_aa():'' @ LF
         @ ''4'' @ DQ3 @ ''Wrapper function for assignment expression ` 1`.'' @ DQ3 @ LF
         @ ''4global x'' @ LF
         @ ''4x =  1'' @ LF
         @ ''4return x'' @ LF]"
  by (simp add: atom_y_x_def eval_simps example_uuid_values eval_nat_numeral)

lemma Context_sum_a_a:
  "\<exists>b. Context_init example_uuid env_posix sum_a_a sum_a_a 0 (Some 4) (Some LF) 0
     = Inr (\<lparr>ctx_column = 0, ctx_tabsize = 4, ctx_linesep = LF, ctx_indent = 0,
             ctx_insert = True,
             ctx_prefix = ''(__walrus_wrapper_a_a()) + (__walrus_wrapper_a_aa())'',
             ctx_suffix = [], ctx_buffer = b, ctx_vars = [''a'', ''a''],
             ctx_func = [\<lparr>func_name = ''a'', func_expr = '' 1'', func_uuid = ''a''\<rparr>,
                         \<lparr>func_name = ''a'', func_expr = '' 2'', func_uuid = ''aa''\<rparr>]\<rparr>, 2)"
  by (simp add: sum_a_a_def eval_simps example_uuid_values eval_nat_numeral)

lemma Context_atom_x_1:
  "\<exists>b. Context_init example_uuid env_posix atom_x_1 atom_x_1 8 (Some 4) (Some LF) 0
     = Inr (\<lparr>ctx_column = 8, ctx_tabsize = 4, ctx_linesep = LF, ctx_indent = 8,
             ctx_insert = True,
             ctx_prefix = ''        (__walrus_wrapper_x_a())'',
             ctx_suffix = [], ctx_buffer = b, ctx_vars = [''x''],
             ctx_func = [\<lparr>func_name = ''x'', func_expr = '' 1'', func_uuid = ''a''\<rparr>]\<rparr>, 1)"
  by (simp add: atom_x_1_def eval_simps example_uuid_values eval_nat_numeral)

lemma sublist_concat_map: "x \<in> set xs \<Longrightarrow> sublist (f x) (concat (map f xs))"
proof -
  assume "x \<in> set xs"
  then obtain ys zs where "xs = ys @ x # zs" by (meson split_list)
  then have "concat (map f xs) = concat (map f ys) @ f x @ concat (map f zs)" by simp
  then show ?thesis by (metis sublist_appendI)
qed

text \<open>
  Claim C10: the declaration assembled for a captured name is the indentation, the
  name, the text \<^verbatim>\<open> = locales().get(\<close>, the \<^verbatim>\<open>repr\<close> of the name, a closing
  parenthesis and the line separator. Whenever \<^verbatim>\<open>_concat\<close> returns, the output holds
  this line for every captured name \<open>v\<close>, and so it holds the identifier
  \<^verbatim>\<open>locales\<close>.
\<close>

theorem declaration_reads_locales:
  assumes "concat_ctx self = Inr self'" and "v \<in> set (ctx_vars self)"
  shows "declaration_line indent name linesep
           = Inr (indent @ name @ '' = locales().get('' @ repr_str name @ '')'' @ linesep)
    \<and> sublist (replicate (nat (ctx_column self)) CHR '' '' @ v @ '' = locales().get(''
                 @ repr_str v @ '')'' @ ctx_linesep self) (ctx_buffer self')
    \<and> sublist ''locales'' (ctx_buffer self')"
proof -
  let ?ind = "replicate (nat (ctx_column self)) CHR '' ''"
  let ?d = "\<lambda>v. declaration_text ?ind v (ctx_linesep self)"
  let ?vs = "sort (remdups (ctx_vars self))"
  from concat_ctx_declarations [OF assms(1)] obtain rest where
    "self' = self\<lparr>ctx_buffer :=
        ctx_buffer self @ ctx_prefix self @ concat (map ?d ?vs) @ rest\<rparr>"
    by blast
  then have b: "ctx_buffer self'
      = (ctx_buffer self @ ctx_prefix self) @ concat (map ?d ?vs) @ rest"
    by simp
  have "v \<in> set ?vs" using assms(2) by simp
  then have "sublist (?d v) (concat (map ?d ?vs))" by (rule sublist_concat_map)
  then have s: "sublist (?d v) (ctx_buffer self')"
    unfolding b by (metis sublist_appendI sublist_order.order_trans)
  have "?d v = (?ind @ v @ '' = '') @ ''locales'' @ (''().get('' @ repr_str v @ '')''
                  @ ctx_linesep self)"
    by (simp add: declaration_text_def)
  then have "sublist ''locales'' (?d v)" by (metis sublist_appendI)
  then have l: "sublist ''locales'' (ctx_buffer self')"
    using s by (rule sublist_order.order_trans)
  show ?thesis
    using s l by (simp add: declaration_line_text declaration_text_def)
qed

theorem declaration_reads_locales_witness:
  "\<exists>self'. concat_ctx \<lparr>ctx_column = 0, ctx_tabsize = 4, ctx_linesep = LF, ctx_indent = 0,
             ctx_insert = True, ctx_prefix = ''(__walrus_wrapper_x_a())'', ctx_suffix = [],
             ctx_buffer = [], ctx_vars = [''x''],
             ctx_func = [\<lparr>func_name = ''x'', func_expr = '' 1'', func_uuid = ''a''\<rparr>]\<rparr>
           = Inr self'
     \<and> declaration_line [] ''x'' LF
           = Inr (''x = locales().get('' @ [CHR 0x27] @ ''x'' @ [CHR 0x27] @ '')'' @ LF)
     \<and> sublist (''x = locales().get('' @ [CHR 0x27] @ ''x'' @ [CHR 0x27] @ '')'' @ LF)
          (ctx_buffer self')
     \<and> sublist ''locales'' (ctx_buffer self')"
proof -
  let ?self = "\<lparr>ctx_column = 0, ctx_tabsize = 4, ctx_linesep = LF, ctx_indent = 0,
             ctx_insert = True, ctx_prefix = ''(__walrus_wrapper_x_a())'', ctx_suffix = [],
             ctx_buffer = [], ctx_vars = [''x''],
             ctx_func = [\<lparr>func_name = ''x'', func_expr = '' 1'', func_uuid = ''a''\<rparr>]\<rparr>"
  obtain self' where c: "concat_ctx ?self = Inr self'"
    by (simp add: concat_ctx_text)
  have v: "''x'' \<in> set (ctx_vars ?self)" by simp
  show ?thesis
    using declaration_reads_locales [OF c v, of "[]" "''x''" LF] c
    by (simp add: repr_str_def repr_quote_def repr_char_def)
qed

subsection \<open>Repeated names and the keyword of a helper\<close>

text \<open>
  Claim C5 (two occurrences that use the same name in the same scope get different
  helper identifiers, and exactly one declaration line for the name is emitted). The
  source does not do so. The text \<^verbatim>\<open>(a := 1) + (a := 2)\n\<close> is converted to the empty
  string, for the reason of C1, so no helper and no declaration line is emitted. Below
  \<^verbatim>\<open>convert\<close>, a \<^verbatim>\<open>Context\<close> fails where one occurrence stands in the expression of
  the other: for \<^verbatim>\<open>Context(node, 0, 4, '\n')\<close> over \<^verbatim>\<open>(a := (a := 1))\<close> the expression
  recorded for the outer occurrence is the whole output of the nested \<^verbatim>\<open>Context\<close>
  (the inner call, the declaration of \<^verbatim>\<open>a\<close> and the inner helper), and the template
  writes this expression twice into the outer helper, so the output holds the
  declaration line of \<^verbatim>\<open>a\<close> three times and the definition of the inner helper twice.
\<close>

theorem same_name_not_declared_once:
  "convert parso_table example_uuid env_posix (''(a := 1) + (a := 2)'' @ LF) = Inr []
   \<and> map_sum id (ctx_buffer \<circ> fst)
       (Context_init example_uuid env_posix atom_a_a atom_a_a 0 (Some 4) (Some LF) 0)
     = Inr (''(__walrus_wrapper_a_a())''
            @ ''a = locales().get('' @ [CHR 0x27] @ ''a'' @ [CHR 0x27] @ '')'' @ LF
            @ LF
            @ ''def __walrus_wrapper_a_a():'' @ LF
            @ ''4'' @ DQ3 @ ''Wrapper function for assignment expression ` (__walrus_wrapper_a_aa())''
            @ ''a = locales().get('' @ [CHR 0x27] @ ''a'' @ [CHR 0x27] @ '')'' @ LF
            @ LF
            @ ''def __walrus_wrapper_a_aa():'' @ LF
            @ ''4'' @ DQ3 @ ''Wrapper function for assignment expression ` 1`.'' @ DQ3 @ LF
            @ ''4global a'' @ LF
            @ ''4a =  1'' @ LF
            @ ''4return a'' @ LF
            @ ''`.'' @ DQ3 @ LF
            @ ''4global a'' @ LF
            @ ''4a =  (__walrus_wrapper_a_aa())''
            @ ''a = locales().get('' @ [CHR 0x27] @ ''a'' @ [CHR 0x27] @ '')'' @ LF
            @ LF
            @ ''def __walrus_wrapper_a_aa():'' @ LF
            @ ''4'' @ DQ3 @ ''Wrapper function for assignment expression ` 1`.'' @ DQ3 @ LF
            @ ''4global a'' @ LF
            @ ''4a =  1'' @ LF
            @ ''4return a'' @ LF
            @ LF
            @ ''4return a'' @ LF)"
proof -
  have p: "parso_table (os_getenv env_posix ''WALRUS_VERSION'' (walrus_version_default env_posix))
      (''(a := 1) + (a := 2)'' @ LF)
    = Some (Module
       [PythonNode ''simple_stmt'' [sum_a_a, Leaf ''newline'' LF [] 19],
        Leaf ''endmarker'' [] [] 0])"
    by (simp add: parso_table_def module_sum_a_a_def)
  have t: "guess_tabsize env_posix module_sum_a_a = Inr 4"
    by (simp add: module_sum_a_a_def sum_a_a_def env_posix_def os_getenv_def py_int_def
        strip_def isspace_def isdigit_def)
  have c: "convert parso_table example_uuid env_posix (''(a := 1) + (a := 2)'' @ LF) = Inr []"
    using convert_Module [of parso_table env_posix "''(a := 1) + (a := 2)'' @ LF"
        "[PythonNode ''simple_stmt'' [sum_a_a, Leaf ''newline'' LF [] 19],
          Leaf ''endmarker'' [] [] 0]" example_uuid]
      p t guess_linesep_posix [of module_sum_a_a]
    by (simp add: module_sum_a_a_def)
  show ?thesis
    unfolding c
    by (simp add: atom_a_a_def eval_simps example_uuid_values eval_nat_numeral)
qed

text \<open>
  Claim C8, as amended: the keyword of every helper is chosen by the column of the
  \<^verbatim>\<open>Context\<close> that writes it, and this column is handed on to every \<^verbatim>\<open>Context\<close>
  created for the expression of an occurrence. For a \<^verbatim>\<open>Context\<close> created over
  \<open>node\<close> with the column \<open>column\<close>, and a line separator without a per cent sign (as
  \<^verbatim>\<open>\r\<close>, \<^verbatim>\<open>\r\n\<close> and \<^verbatim>\<open>\n\<close> are): the output is the prefix, the declarations, the
  helpers and the suffix, and every helper has the keyword \<^verbatim>\<open>global\<close> when the column
  is 0 (or below) and \<^verbatim>\<open>nonlocal\<close> when it is positive; and the recorded wrappers are,
  one by one, those of the occurrences that the walk of \<open>node\<close> meets, the expression
  of each being the output of the \<^verbatim>\<open>Context\<close> created over the third child of that
  occurrence with the same column, tab size and line separator, to which the same
  applies.
\<close>

theorem helper_keyword_by_column:
  assumes "Context_init gen env root node column tabsize linesep n = Inr (ctx, n')"
    and "CHR ''%'' \<notin> set (ctx_linesep ctx)"
  shows "ctx_buffer ctx =
      ctx_prefix ctx
      @ concat (map (\<lambda>v. declaration_text (replicate (nat column) CHR '' '') v (ctx_linesep ctx))
                  (sort (remdups (ctx_vars ctx))))
      @ concat (map (wrapper_text (if column > 0 then ''nonlocal'' else ''global'')
                       (str_int (ctx_tabsize ctx)) (ctx_linesep ctx)
                       (replicate (nat column) CHR '' ''))
                  (sort_key func_name (ctx_func ctx)))
      @ ctx_suffix ctx
    \<and> list_all2 (recorded_for gen env root column (ctx_tabsize ctx) (ctx_linesep ctx))
        (ctx_func ctx) (occurrences node)"
proof -
  let ?init = "\<lambda>t l. \<lparr>ctx_column = column, ctx_tabsize = t, ctx_linesep = l,
            ctx_indent = column, ctx_insert = True, ctx_prefix = [],
            ctx_suffix = [], ctx_buffer = [], ctx_vars = [], ctx_func = []\<rparr>"
  from Context_init_Inr [OF assms(1)] obtain t l self where
    p: "process gen env root node (?init t l) n = Inr (self, n')"
    and c: "concat_ctx self = Inr ctx"
    by blast
  have e: "extends (?init t l) n self n'"
    using process_extends_all(1) p by blast
  then have s: "ctx_column self = column" "ctx_buffer self = []" "ctx_linesep self = l"
    "ctx_tabsize self = t"
    by (simp_all add: extends_def)
  have "records gen env root (?init t l) self (occurrences node)"
    using process_records_all(1) p by blast
  then have r: "list_all2 (recorded_for gen env root column t l) (ctx_func self)
                  (occurrences node)"
    by (simp add: records_def)
  from concat_ctx_declarations [OF c] have "ctx_linesep ctx = ctx_linesep self" by auto
  then have "CHR ''%'' \<notin> set (ctx_linesep self)" using assms(2) by simp
  from concat_ctx_text [OF this] c have
    b: "ctx = self\<lparr>ctx_buffer :=
            ctx_buffer self @ ctx_prefix self
            @ concat (map (\<lambda>v. declaration_text (replicate (nat (ctx_column self)) CHR '' '') v
                                 (ctx_linesep self))
                        (sort (remdups (ctx_vars self))))
            @ concat (map (wrapper_text (if ctx_column self > 0 then ''nonlocal'' else ''global'')
                             (str_int (ctx_tabsize self)) (ctx_linesep self)
                             (replicate (nat (ctx_column self)) CHR '' ''))
                        (sort_key func_name (ctx_func self)))
            @ ctx_suffix self\<rparr>"
    by simp
  have f: "ctx_func ctx = ctx_func self" "ctx_tabsize ctx = t" "ctx_linesep ctx = l"
    using arg_cong [OF b, of ctx_func] arg_cong [OF b, of ctx_tabsize]
      arg_cong [OF b, of ctx_linesep] s
    by simp_all
  have "list_all2 (recorded_for gen env root column (ctx_tabsize ctx) (ctx_linesep ctx))
          (ctx_func ctx) (occurrences node)"
    using r f by simp
  moreover have "ctx_buffer ctx =
      ctx_prefix ctx
      @ concat (map (\<lambda>v. declaration_text (replicate (nat column) CHR '' '') v (ctx_linesep ctx))
                  (sort (remdups (ctx_vars ctx))))
      @ concat (map (wrapper_text (if column > 0 then ''nonlocal'' else ''global'')
                       (str_int (ctx_tabsize ctx)) (ctx_linesep ctx)
                       (replicate (nat column) CHR '' ''))
                  (sort_key func_name (ctx_func ctx)))
      @ ctx_suffix ctx"
    using arg_cong [OF b, of ctx_buffer] arg_cong [OF b, of ctx_prefix]
      arg_cong [OF b, of ctx_suffix] arg_cong [OF b, of ctx_vars] arg_cong [OF b, of ctx_func]
      arg_cong [OF b, of ctx_tabsize] arg_cong [OF b, of ctx_linesep] s
    by simp
  ultimately show ?thesis by blast
qed

theorem helper_keyword_by_column_witness:
  "(\<exists>ctx. Context_init example_uuid env_posix atom_x_1 atom_x_1 8 (Some 4) (Some LF) 0
             = Inr (ctx, 1)
      \<and> CHR ''%'' \<notin> set (ctx_linesep ctx)
      \<and> ctx_buffer ctx =
          ''        (__walrus_wrapper_x_a())''
          @ ''        x = locales().get('' @ [CHR 0x27] @ ''x'' @ [CHR 0x27] @ '')'' @ LF
          @ LF
          @ ''        def __walrus_wrapper_x_a():'' @ LF
          @ ''        4'' @ DQ3 @ ''Wrapper function for assignment expression ` 1`.'' @ DQ3 @ LF
          @ ''        4nonlocal x'' @ LF
          @ ''        4x =  1'' @ LF
          @ ''        4return x'' @ LF
      \<and> list_all2 (recorded_for example_uuid env_posix atom_x_1 8 4 LF) (ctx_func ctx)
          (occurrences atom_x_1))
   \<and> (\<exists>ctx. Context_init example_uuid env_posix sum_a_a sum_a_a 0 (Some 4) (Some LF) 0
             = Inr (ctx, 2)
      \<and> CHR ''%'' \<notin> set (ctx_linesep ctx)
      \<and> ctx_buffer ctx =
          ''(__walrus_wrapper_a_a()) + (__walrus_wrapper_a_aa())''
          @ ''a = locales().get('' @ [CHR 0x27] @ ''a'' @ [CHR 0x27] @ '')'' @ LF
          @ LF
          @ ''def __walrus_wrapper_a_a():'' @ LF
          @ ''4'' @ DQ3 @ ''Wrapper function for assignment expression ` 1`.'' @ DQ3 @ LF
          @ ''4global a'' @ LF
          @ ''4a =  1'' @ LF
          @ ''4return a'' @ LF
          @ LF
          @ ''def __walrus_wrapper_a_aa():'' @ LF
          @ ''4'' @ DQ3 @ ''Wrapper function for assignment expression ` 2`.'' @ DQ3 @ LF
          @ ''4global a'' @ LF
          @ ''4a =  2'' @ LF
          @ ''4return a'' @ LF
      \<and> list_all2 (recorded_for example_uuid env_posix sum_a_a 0 4 LF) (ctx_func ctx)
          (occurrences sum_a_a))"
proof -
  from Context_atom_x_1 obtain b where
    h: "Context_init example_uuid env_posix atom_x_1 atom_x_1 8 (Some 4) (Some LF) 0
     = Inr (\<lparr>ctx_column = 8, ctx_tabsize = 4, ctx_linesep = LF, ctx_indent = 8,
             ctx_insert = True,
             ctx_prefix = ''        (__walrus_wrapper_x_a())'',
             ctx_suffix = [], ctx_buffer = b, ctx_vars = [''x''],
             ctx_func = [\<lparr>func_name = ''x'', func_expr = '' 1'', func_uuid = ''a''\<rparr>]\<rparr>, 1)"
    by blast
  from Context_sum_a_a obtain c where
    k: "Context_init example_uuid env_posix sum_a_a sum_a_a 0 (Some 4) (Some LF) 0
     = Inr (\<lparr>ctx_column = 0, ctx_tabsize = 4, ctx_linesep = LF, ctx_indent = 0,
             ctx_insert = True,
             ctx_prefix = ''(__walrus_wrapper_a_a()) + (__walrus_wrapper_a_aa())'',
             ctx_suffix = [], ctx_buffer = c, ctx_vars = [''a'', ''a''],
             ctx_func = [\<lparr>func_name = ''a'', func_expr = '' 1'', func_uuid = ''a''\<rparr>,
                         \<lparr>func_name = ''a'', func_expr = '' 2'', func_uuid = ''aa''\<rparr>]\<rparr>, 2)"
    by blast
  have hb: "b = ''        (__walrus_wrapper_x_a())''
          @ ''        x = locales().get('' @ [CHR 0x27] @ ''x'' @ [CHR 0x27] @ '')'' @ LF
          @ LF
          @ ''        def __walrus_wrapper_x_a():'' @ LF
          @ ''        4'' @ DQ3 @ ''Wrapper function for assignment expression ` 1`.'' @ DQ3 @ LF
          @ ''        4nonlocal x'' @ LF
          @ ''        4x =  1'' @ LF
          @ ''        4return x'' @ LF"
    using helper_keyword_by_column [OF h, THEN conjunct1]
    by (simp add: wrapper_text_def declaration_text_def repr_str_def repr_quote_def
        repr_char_def str_int_def str_nat.simps eval_nat_numeral)
  have hr: "list_all2 (recorded_for example_uuid env_posix atom_x_1 8 4 LF)
              [\<lparr>func_name = ''x'', func_expr = '' 1'', func_uuid = ''a''\<rparr>]
              (occurrences atom_x_1)"
    using helper_keyword_by_column [OF h, THEN conjunct2] by simp
  have kc: "c = ''(__walrus_wrapper_a_a()) + (__walrus_wrapper_a_aa())''
          @ ''a = locales().get('' @ [CHR 0x27] @ ''a'' @ [CHR 0x27] @ '')'' @ LF
          @ LF
          @ ''def __walrus_wrapper_a_a():'' @ LF
          @ ''4'' @ DQ3 @ ''Wrapper function for assignment expression ` 1`.'' @ DQ3 @ LF
          @ ''4global a'' @ LF
          @ ''4a =  1'' @ LF
          @ ''4return a'' @ LF
          @ LF
          @ ''def __walrus_wrapper_a_aa():'' @ LF
          @ ''4'' @ DQ3 @ ''Wrapper function for assignment expression ` 2`.'' @ DQ3 @ LF
          @ ''4global a'' @ LF
          @ ''4a =  2'' @ LF
          @ ''4return a'' @ LF"
    using helper_keyword_by_column [OF k, THEN conjunct1]
    by (simp add: wrapper_text_def declaration_text_def repr_str_def repr_quote_def
        repr_char_def str_int_def str_nat.simps eval_nat_numeral less_eq_char_def less_char_def)
  have kr: "list_all2 (recorded_for example_uuid env_posix sum_a_a 0 4 LF)
              [\<lparr>func_name = ''a'', func_expr = '' 1'', func_uuid = ''a''\<rparr>,
               \<lparr>func_name = ''a'', func_expr = '' 2'', func_uuid = ''aa''\<rparr>]
              (occurrences sum_a_a)"
    using helper_keyword_by_column [OF k, THEN conjunct2] by simp
  show ?thesis
    using h k hb kc hr kr by simp
qed

text \<open>
  Claim C8 as stated fails, because the keyword follows the column and not the scope.
  The body of the function definition \<^verbatim>\<open>def f():\n    return (x := 1)\n\<close> is a nested
  scope, and \<^verbatim>\<open>Context(node, 0, 4, '\n')\<close> over this definition, which stands at
  column 0, writes a helper with the keyword \<^verbatim>\<open>global\<close>. The suite of the statement
  \<^verbatim>\<open>if c:\n    (x := 1)\n\<close> of a module belongs to the module scope, and
  \<^verbatim>\<open>Context(node, 4, 4, '\n')\<close> over this suite, which stands at column 4, writes a
  helper with the keyword \<^verbatim>\<open>nonlocal\<close>.
\<close>

theorem keyword_ignores_scope:
  "node_type def_f = ''funcdef''
   \<and> get_code def_f = ''def f():'' @ LF @ ''    return (x := 1)'' @ LF
   \<and> map_sum id (ctx_buffer \<circ> fst)
        (Context_init example_uuid env_posix def_f def_f 0 (Some 4) (Some LF) 0)
      = Inr (''def f():'' @ LF
             @ ''    return (__walrus_wrapper_x_a())'' @ LF
             @ ''x = locales().get('' @ [CHR 0x27] @ ''x'' @ [CHR 0x27] @ '')'' @ LF
             @ LF
             @ ''def __walrus_wrapper_x_a():'' @ LF
             @ ''4'' @ DQ3 @ ''Wrapper function for assignment expression ` 1`.'' @ DQ3 @ LF
             @ ''4global x'' @ LF
             @ ''4x =  1'' @ LF
             @ ''4return x'' @ LF)
   \<and> get_code module_if = ''if c:'' @ LF @ ''    (x := 1)'' @ LF
   \<and> map_sum id (ctx_buffer \<circ> fst)
        (Context_init example_uuid env_posix module_if suite_if 4 (Some 4) (Some LF) 0)
      = Inr (LF
             @ ''    (__walrus_wrapper_x_a())'' @ LF
             @ ''    x = locales().get('' @ [CHR 0x27] @ ''x'' @ [CHR 0x27] @ '')'' @ LF
             @ LF
             @ ''    def __walrus_wrapper_x_a():'' @ LF
             @ ''    4'' @ DQ3 @ ''Wrapper function for assignment expression ` 1`.'' @ DQ3 @ LF
             @ ''    4nonlocal x'' @ LF
             @ ''    4x =  1'' @ LF
             @ ''    4return x'' @ LF)"
proof -
  have a: "map_sum id (ctx_buffer \<circ> fst)
        (Context_init example_uuid env_posix def_f def_f 0 (Some 4) (Some LF) 0)
      = Inr (''def f():'' @ LF
             @ ''    return (__walrus_wrapper_x_a())'' @ LF
             @ ''x = locales().get('' @ [CHR 0x27] @ ''x'' @ [CHR 0x27] @ '')'' @ LF
             @ LF
             @ ''def __walrus_wrapper_x_a():'' @ LF
             @ ''4'' @ DQ3 @ ''Wrapper function for assignment expression ` 1`.'' @ DQ3 @ LF
             @ ''4global x'' @ LF
             @ ''4x =  1'' @ LF
             @ ''4return x'' @ LF)"
    by (simp add: def_f_def eval_simps example_uuid_values eval_nat_numeral)
  have b: "map_sum id (ctx_buffer \<circ> fst)
        (Context_init example_uuid env_posix module_if suite_if 4 (Some 4) (Some LF) 0)
      = Inr (LF
             @ ''    (__walrus_wrapper_x_a())'' @ LF
             @ ''    x = locales().get('' @ [CHR 0x27] @ ''x'' @ [CHR 0x27] @ '')'' @ LF
             @ LF
             @ ''    def __walrus_wrapper_x_a():'' @ LF
             @ ''    4'' @ DQ3 @ ''Wrapper function for assignment expression ` 1`.'' @ DQ3 @ LF
             @ ''    4nonlocal x'' @ LF
             @ ''    4x =  1'' @ LF
             @ ''    4return x'' @ LF)"
    by (simp add: suite_if_def eval_simps example_uuid_values eval_nat_numeral)
  have c: "get_code def_f = ''def f():'' @ LF @ ''    return (x := 1)'' @ LF"
    by (simp add: def_f_def)
  have d: "get_code module_if = ''if c:'' @ LF @ ''    (x := 1)'' @ LF"
    by (simp add: module_if_def suite_if_def)
  have e: "node_type def_f = ''funcdef''"
    by (simp add: def_f_def)
  show ?thesis
    using a b c d e by simp
qed

end
